theory Spec2Isabelle
  imports Complex_Main
begin

section \<open>The waitlist worker (src/worker.ts) as HOL functions\<close>

text \<open>
  The worker answers \<^verbatim>\<open>POST /api/waitlist\<close>: it decodes the body, normalizes it to an
  \<^verbatim>\<open>{email, useCase, website}\<close> triple, validates the triple, answers bots that fill
  the honeypot field, throttles by IP and UTC day with a count over the table, and upserts
  a row keyed by the lowercase email.

  Conventions of the model.
  \<^item> A JavaScript string is a \<^typ>\<open>string\<close>; \<^verbatim>\<open>length\<close> counts its code units, here
    the characters U+0000 to U+00FF that \<^typ>\<open>char\<close> holds.
  \<^item> \<^verbatim>\<open>undefined\<close> and \<^verbatim>\<open>null\<close> results are \<^const>\<open>None\<close> where the code treats
    them alike.
  \<^item> An instant (\<^verbatim>\<open>Date\<close>) is its time value, an \<^typ>\<open>int\<close> of milliseconds since
    1970-01-01T00:00:00Z.
  \<^item> The table \<^verbatim>\<open>waitlist_entries\<close> is a list of rows in insertion order together with
    the AUTOINCREMENT counter.
\<close>

subsection \<open>Strings\<close>

text \<open>\<^verbatim>\<open>String.prototype.trim\<close> strips white space and line terminators: TAB, LF, VT, FF,
  CR, SP and NBSP are the ones below U+0100.\<close>

definition isWhiteSpace :: "char \<Rightarrow> bool" where
  "isWhiteSpace c = (of_char c \<in> {9, 10, 11, 12, 13, 32, 160 :: nat})"

definition trim :: "string \<Rightarrow> string" where
  "trim s = rev (dropWhile isWhiteSpace (rev (dropWhile isWhiteSpace s)))"

text \<open>\<^verbatim>\<open>String.prototype.toLowerCase\<close>: the letters A-Z, and the Latin-1 capitals
  U+00C0 to U+00DE without the multiplication sign U+00D7, move up by 32.\<close>

definition toLowerChar :: "char \<Rightarrow> char" where
  "toLowerChar c =
     (let n = (of_char c :: nat)
      in if (65 \<le> n \<and> n \<le> 90) \<or> (192 \<le> n \<and> n \<le> 222 \<and> n \<noteq> 215)
         then char_of (n + 32) else c)"

definition toLowerCase :: "string \<Rightarrow> string" where
  "toLowerCase s = map toLowerChar s"

text \<open>\<^verbatim>\<open>s.includes(t)\<close>: \<^verbatim>\<open>t\<close> occurs in \<^verbatim>\<open>s\<close> as a contiguous piece.\<close>

fun startsWith :: "string \<Rightarrow> string \<Rightarrow> bool" where
  "startsWith s [] = True"
| "startsWith [] (y # ys) = False"
| "startsWith (x # xs) (y # ys) = (x = y \<and> startsWith xs ys)"

fun includes_str :: "string \<Rightarrow> string \<Rightarrow> bool" where
  "includes_str [] t = (t = [])"
| "includes_str (x # xs) t = (startsWith (x # xs) t \<or> includes_str xs t)"

text \<open>\<^verbatim>\<open>s.split(c)\<close> for a one-character separator: the pieces between the
  separators, at least one piece.\<close>

fun split_char :: "char \<Rightarrow> string \<Rightarrow> string list" where
  "split_char c [] = [[]]"
| "split_char c (x # xs) =
     (if x = c then [] # split_char c xs
      else (case split_char c xs of
              p # ps \<Rightarrow> (x # p) # ps
            | [] \<Rightarrow> [[x]]))"

text \<open>\<^verbatim>\<open>s.split(',')[0]\<close>: the first piece; the array is never empty
  (\<open>split_char_first\<close> below).\<close>

definition split_comma_first :: "string \<Rightarrow> string" where
  "split_comma_first s = (case split_char CHR '','' s of p # ps \<Rightarrow> p | [] \<Rightarrow> [])"

subsection \<open>Headers and the client's IP\<close>

text \<open>\<^verbatim>\<open>Headers.get(name)\<close> is a lookup by lowercase name; \<^const>\<open>None\<close> is \<^verbatim>\<open>null\<close>.\<close>

type_synonym headers = "string \<rightharpoonup> string"

definition getConnectingIp :: "headers \<Rightarrow> string" where
  "getConnectingIp hs =
     (case hs ''cf-connecting-ip'' of
        Some connectingIp \<Rightarrow>
          if length connectingIp > 0 then connectingIp
          else (case hs ''x-forwarded-for'' of
                  Some forwardedFor \<Rightarrow>
                    if length forwardedFor > 0 then trim (split_comma_first forwardedFor)
                    else ''unknown''
                | None \<Rightarrow> ''unknown'')
      | None \<Rightarrow>
          (case hs ''x-forwarded-for'' of
             Some forwardedFor \<Rightarrow>
               if length forwardedFor > 0 then trim (split_comma_first forwardedFor)
               else ''unknown''
           | None \<Rightarrow> ''unknown''))"

subsection \<open>The configured ceiling\<close>

text \<open>\<^verbatim>\<open>Number.parseInt(value, 10)\<close>: leading white space is skipped, one sign is read,
  then the longest run of decimal digits; no digit gives \<^verbatim>\<open>NaN\<close>, here \<^const>\<open>None\<close>.
  What follows the digits is ignored. The result is the mathematical integer; JavaScript
  holds the double nearest to it, which is the integer itself up to \<open>2 ^ 53\<close> and
  \<^verbatim>\<open>Infinity\<close> from \<open>2 ^ 1024 - 2 ^ 970\<close> on (\<^verbatim>\<open>Number.isFinite\<close> below).\<close>

definition isDigit :: "char \<Rightarrow> bool" where
  "isDigit c = (48 \<le> (of_char c :: nat) \<and> (of_char c :: nat) \<le> 57)"

definition digitValue :: "char \<Rightarrow> int" where
  "digitValue c = int (of_char c) - 48"

definition digitsValue :: "string \<Rightarrow> int" where
  "digitsValue ds = foldl (\<lambda>acc c. 10 * acc + digitValue c) 0 ds"

definition parseInt10 :: "string \<Rightarrow> int option" where
  "parseInt10 inputString =
     (let s = dropWhile isWhiteSpace inputString;
          sign = (if s \<noteq> [] \<and> hd s = CHR ''-'' then - 1 else 1 :: int);
          s' = (if s \<noteq> [] \<and> (hd s = CHR ''+'' \<or> hd s = CHR ''-'') then tl s else s);
          z = takeWhile isDigit s'
      in if z = [] then None else Some (sign * digitsValue z))"

definition Number_isFinite :: "int \<Rightarrow> bool" where
  "Number_isFinite n = (\<bar>n\<bar> < 2 ^ 1024 - 2 ^ 970)"

definition parsePositiveInt :: "string option \<Rightarrow> int \<Rightarrow> int" where
  "parsePositiveInt value fallbackValue =
     (case value of
        None \<Rightarrow> fallbackValue
      | Some v \<Rightarrow>
          if v = [] then fallbackValue
          else (case parseInt10 v of
                  None \<Rightarrow> fallbackValue
                | Some parsedValue \<Rightarrow>
                    if \<not> Number_isFinite parsedValue \<or> parsedValue < 1 then fallbackValue
                    else parsedValue))"

subsection \<open>Instants and the UTC calendar\<close>

text \<open>The calendar follows the definitions of the ECMAScript language specification
  (Day, DayFromYear, YearFromTime, MonthFromTime, DateFromTime, MakeDay, MakeDate), which
  \<^verbatim>\<open>getUTCFullYear\<close>, \<^verbatim>\<open>getUTCMonth\<close>, \<^verbatim>\<open>getUTCDate\<close> and \<^verbatim>\<open>Date.UTC\<close> are
  specified by. Time values stay inside the range of \<^verbatim>\<open>Date\<close> (at most 8.64e15 ms from
  the epoch), where \<^verbatim>\<open>TimeClip\<close> changes nothing.\<close>

definition msPerDay :: int where
  "msPerDay = 86400000"

definition Day :: "int \<Rightarrow> int" where
  "Day t = t div msPerDay"

definition DayFromYear :: "int \<Rightarrow> int" where
  "DayFromYear y =
     365 * (y - 1970) + (y - 1969) div 4 - (y - 1901) div 100 + (y - 1601) div 400"

text \<open>YearFromTime is the largest year whose first day is not after the instant: a first
  guess from the mean length of a year, moved by one where it misses
  (\<open>YearFromDay_bounds\<close> below).\<close>

definition YearFromDay :: "int \<Rightarrow> int" where
  "YearFromDay d =
     (let y = 1970 + (400 * d) div 146097
      in if DayFromYear (y + 1) \<le> d then y + 1
         else if d < DayFromYear y then y - 1
         else y)"

definition getUTCFullYear :: "int \<Rightarrow> int" where
  "getUTCFullYear t = YearFromDay (Day t)"

definition InLeapYear :: "int \<Rightarrow> bool" where
  "InLeapYear y = (y mod 4 = 0 \<and> (y mod 100 \<noteq> 0 \<or> y mod 400 = 0))"

definition DayWithinYear :: "int \<Rightarrow> int" where
  "DayWithinYear t = Day t - DayFromYear (getUTCFullYear t)"

text \<open>The day of the year on which month \<open>m\<close> (0 to 11) starts.\<close>

definition monthStart :: "bool \<Rightarrow> int \<Rightarrow> int" where
  "monthStart leap m =
     (let l = (if leap then 1 else 0)
      in if m = 0 then 0 else if m = 1 then 31 else if m = 2 then 59 + l
         else if m = 3 then 90 + l else if m = 4 then 120 + l else if m = 5 then 151 + l
         else if m = 6 then 181 + l else if m = 7 then 212 + l else if m = 8 then 243 + l
         else if m = 9 then 273 + l else if m = 10 then 304 + l else 334 + l)"

definition getUTCMonth :: "int \<Rightarrow> int" where
  "getUTCMonth t =
     (let d = DayWithinYear t; leap = InLeapYear (getUTCFullYear t)
      in if d < monthStart leap 1 then 0 else if d < monthStart leap 2 then 1
         else if d < monthStart leap 3 then 2 else if d < monthStart leap 4 then 3
         else if d < monthStart leap 5 then 4 else if d < monthStart leap 6 then 5
         else if d < monthStart leap 7 then 6 else if d < monthStart leap 8 then 7
         else if d < monthStart leap 9 then 8 else if d < monthStart leap 10 then 9
         else if d < monthStart leap 11 then 10 else 11)"

definition getUTCDate :: "int \<Rightarrow> int" where
  "getUTCDate t =
     DayWithinYear t - monthStart (InLeapYear (getUTCFullYear t)) (getUTCMonth t) + 1"

definition MakeTime :: "int \<Rightarrow> int \<Rightarrow> int \<Rightarrow> int \<Rightarrow> int" where
  "MakeTime hour minute sec ms = hour * 3600000 + minute * 60000 + sec * 1000 + ms"

text \<open>MakeDay: the day number of the first of the month, plus the date less one; a date
  beyond the month's end runs on into the next month.\<close>

definition MakeDay :: "int \<Rightarrow> int \<Rightarrow> int \<Rightarrow> int" where
  "MakeDay year month date =
     (let ym = year + month div 12; mn = month mod 12
      in DayFromYear ym + monthStart (InLeapYear ym) mn + date - 1)"

definition MakeDate :: "int \<Rightarrow> int \<Rightarrow> int" where
  "MakeDate day time = day * msPerDay + time"

text \<open>\<^verbatim>\<open>Date.UTC\<close> reads a year from 0 to 99 as 1900 plus that year.\<close>

definition MakeFullYear :: "int \<Rightarrow> int" where
  "MakeFullYear year = (if 0 \<le> year \<and> year \<le> 99 then 1900 + year else year)"

definition Date_UTC :: "int \<Rightarrow> int \<Rightarrow> int \<Rightarrow> int \<Rightarrow> int \<Rightarrow> int \<Rightarrow> int \<Rightarrow> int" where
  "Date_UTC year month date hours minutes seconds ms =
     MakeDate (MakeDay (MakeFullYear year) month date) (MakeTime hours minutes seconds ms)"

text \<open>\<^verbatim>\<open>toISOString\<close> writes an instant of the years 0000 to 9999 in the fixed-width form
  \<^verbatim>\<open>YYYY-MM-DDTHH:mm:ss.sssZ\<close>, and SQLite compares such texts as it would the
  instants. The model keeps the instant in place of its text; \<open>clock_ok\<close> says that
  the clock reads an instant from the epoch to the end of the year 9999.\<close>

definition startOfUtcDayIso :: "int \<Rightarrow> int" where
  "startOfUtcDayIso date =
     Date_UTC (getUTCFullYear date) (getUTCMonth date) (getUTCDate date) 0 0 0 0"

definition endOfUtcDayIso :: "int \<Rightarrow> int" where
  "endOfUtcDayIso date =
     Date_UTC (getUTCFullYear date) (getUTCMonth date) (getUTCDate date) 23 59 59 999"

text \<open>\<^verbatim>\<open>Math.ceil(x / 1000)\<close> of an integer \<open>x\<close>.\<close>

definition ceil_div_1000 :: "int \<Rightarrow> int" where
  "ceil_div_1000 x = - ((- x) div 1000)"

definition secondsUntilNextUtcDay :: "int \<Rightarrow> int" where
  "secondsUntilNextUtcDay now =
     (let nextDay = Date_UTC (getUTCFullYear now) (getUTCMonth now) (getUTCDate now + 1) 0 0 0 0
      in max 1 (ceil_div_1000 (nextDay - now)))"

definition clock_ok :: "int \<Rightarrow> bool" where
  "clock_ok now = (0 \<le> now \<and> now < 253402300800000)"

subsection \<open>Values and requests\<close>

text \<open>A value of type \<^verbatim>\<open>unknown\<close>: what \<^verbatim>\<open>JSON.parse\<close> returns, or what the edge puts in
  \<^verbatim>\<open>request.cf\<close>. A number is a real, or \<^const>\<open>None\<close> when it is \<^verbatim>\<open>NaN\<close> or infinite
  (the code only asks \<^verbatim>\<open>Number.isFinite\<close>). An object lists each of its properties
  once.\<close>

datatype jsval =
    JNull
  | JBool bool
  | JNum "real option"
  | JStr string
  | JArr "jsval list"
  | JObj "(string \<times> jsval) list"

text \<open>\<^verbatim>\<open>Record<string, unknown>\<close>: reading a property that is not there gives \<^verbatim>\<open>undefined\<close>,
  here \<^const>\<open>None\<close>.\<close>

type_synonym jsrecord = "string \<rightharpoonup> jsval"

fun isRecord :: "jsval option \<Rightarrow> bool" where
  "isRecord (Some (JObj kvs)) = True"
| "isRecord (Some (JArr vs)) = True"
| "isRecord v = False"

text \<open>The named properties of a value that \<^const>\<open>isRecord\<close> accepts. An array owns its
  indices and \<^verbatim>\<open>length\<close> only, none of which the worker reads.\<close>

fun asRecord :: "jsval \<Rightarrow> jsrecord" where
  "asRecord (JObj kvs) = map_of kvs"
| "asRecord v = Map.empty"

text \<open>An entry of a \<^verbatim>\<open>FormData\<close>: a string or a file, of which the code reads the name.\<close>

datatype FormDataEntryValue = FormString string | File (name: string)

text \<open>A request, as far as the handler looks at it: its headers, what \<^verbatim>\<open>request.json()\<close>
  and \<^verbatim>\<open>request.formData()\<close> resolve to (\<^const>\<open>None\<close> when the promise rejects because
  the body is malformed), and the edge's \<^verbatim>\<open>cf\<close> object when there is one.\<close>

record request =
  headers :: headers
  json :: "jsval option"
  formData :: "(string \<times> FormDataEntryValue) list option"
  cf :: "jsrecord option"

text \<open>An exception that leaves the handler: Hono answers it with its generic error
  response.\<close>

datatype exn = FormDataRejected

subsection \<open>Decoding and normalizing the body\<close>

definition formEntry :: "jsrecord \<Rightarrow> string \<times> FormDataEntryValue \<Rightarrow> jsrecord" where
  "formEntry output kv =
     (case kv of
        (key, FormString v) \<Rightarrow> output(key \<mapsto> JStr v)
      | (key, File n) \<Rightarrow> output(key \<mapsto> JStr n))"

definition parseRequestBody :: "request \<Rightarrow> exn + jsrecord" where
  "parseRequestBody req =
     (let contentType = (case headers req ''content-type'' of Some v \<Rightarrow> v | None \<Rightarrow> [])
      in if includes_str contentType ''application/json'' then
           (case json req of
              None \<Rightarrow> Inr Map.empty
            | Some jsonBody \<Rightarrow>
                Inr (if isRecord (Some jsonBody) then asRecord jsonBody else Map.empty))
         else if includes_str contentType ''application/x-www-form-urlencoded''
                 \<or> includes_str contentType ''multipart/form-data'' then
           (case formData req of
              None \<Rightarrow> Inl FormDataRejected
            | Some entries \<Rightarrow> Inr (foldl formEntry Map.empty entries))
         else Inr Map.empty)"

text \<open>\<^verbatim>\<open>a ?? b\<close>: \<open>b\<close> when \<open>a\<close> is \<^verbatim>\<open>undefined\<close> or \<^verbatim>\<open>null\<close>, else \<open>a\<close>.\<close>

fun nullish :: "jsval option \<Rightarrow> jsval option \<Rightarrow> jsval option" where
  "nullish None b = b"
| "nullish (Some JNull) b = b"
| "nullish a b = a"

fun toOptionalString :: "jsval option \<Rightarrow> string option" where
  "toOptionalString (Some (JStr v)) =
     (let trimmed = trim v in if length trimmed > 0 then Some trimmed else None)"
| "toOptionalString v = None"

record normalized =
  norm_email :: "string option"
  norm_useCase :: "string option"
  norm_website :: "string option"

definition normalizePayload :: "jsrecord \<Rightarrow> normalized" where
  "normalizePayload raw =
     \<lparr> norm_email = toOptionalString (raw ''email''),
       norm_useCase = toOptionalString
         (nullish (nullish (nullish (raw ''useCase'') (raw ''use_case'')) (raw ''intent''))
            (raw ''description'')),
       norm_website = toOptionalString (nullish (raw ''website'') (raw ''company'')) \<rparr>"

subsection \<open>Validation\<close>

text \<open>\<^verbatim>\<open>waitlistPayloadSchema.safeParse\<close> on a normalized payload, whose fields are strings
  or \<^verbatim>\<open>undefined\<close>. The pattern that \<^verbatim>\<open>z.email()\<close> matches belongs to the zod library
  and is the parameter \<open>emailPattern\<close>. \<^const>\<open>None\<close> is a failed parse; the data of a
  successful one holds the trimmed strings.\<close>

record payload =
  payload_email :: string
  payload_useCase :: "string option"
  payload_website :: "string option"

definition safeParse :: "(string \<Rightarrow> bool) \<Rightarrow> normalized \<Rightarrow> payload option" where
  "safeParse emailPattern n =
     (case norm_email n of
        None \<Rightarrow> None
      | Some e \<Rightarrow>
          if emailPattern (trim e) \<and> length (trim e) \<le> 320
             \<and> (case norm_useCase n of None \<Rightarrow> True | Some u \<Rightarrow> length (trim u) \<le> 1200)
             \<and> (case norm_website n of None \<Rightarrow> True | Some w \<Rightarrow> length (trim w) \<le> 200)
          then Some \<lparr> payload_email = trim e,
                      payload_useCase = map_option trim (norm_useCase n),
                      payload_website = map_option trim (norm_website n) \<rparr>
          else None)"

subsection \<open>The edge's snapshot of the request\<close>

text \<open>\<^verbatim>\<open>Number(value)\<close> on a string is the parameter \<open>toNumber\<close> (\<^const>\<open>None\<close> when the result
  is \<^verbatim>\<open>NaN\<close> or infinite): the worker hands the string to the runtime and only asks
  whether the result is finite.\<close>

definition readCfString :: "jsrecord option \<Rightarrow> string \<Rightarrow> string option" where
  "readCfString input key =
     (case input of
        None \<Rightarrow> None
      | Some obj \<Rightarrow>
          (case obj key of
             Some (JStr v) \<Rightarrow> if length v > 0 then Some v else None
           | _ \<Rightarrow> None))"

definition readCfFloat ::
  "(string \<Rightarrow> real option) \<Rightarrow> jsrecord option \<Rightarrow> string \<Rightarrow> real option" where
  "readCfFloat toNumber input key =
     (case input of
        None \<Rightarrow> None
      | Some obj \<Rightarrow>
          (case obj key of
             Some (JNum (Some x)) \<Rightarrow> Some x
           | Some (JStr v) \<Rightarrow> if length (trim v) > 0 then toNumber v else None
           | _ \<Rightarrow> None))"

definition Math_trunc :: "real \<Rightarrow> real" where
  "Math_trunc x = (if 0 \<le> x then of_int \<lfloor>x\<rfloor> else of_int \<lceil>x\<rceil>)"

definition readCfInteger ::
  "(string \<Rightarrow> real option) \<Rightarrow> jsrecord option \<Rightarrow> string \<Rightarrow> real option" where
  "readCfInteger toNumber input key =
     (case readCfFloat toNumber input key of
        None \<Rightarrow> None
      | Some v \<Rightarrow> Some (Math_trunc v))"

record cf_snapshot =
  country :: "string option"
  region :: "string option"
  regionCode :: "string option"
  city :: "string option"
  postalCode :: "string option"
  continent :: "string option"
  timezone :: "string option"
  colo :: "string option"
  asn :: "real option"
  asOrganization :: "string option"
  latitude :: "real option"
  longitude :: "real option"
  botScore :: "real option"
  tlsVersion :: "string option"
  httpProtocol :: "string option"

definition getCfSnapshot :: "(string \<Rightarrow> real option) \<Rightarrow> request \<Rightarrow> cf_snapshot" where
  "getCfSnapshot toNumber req =
     (let botManagement =
            (case cf req of
               None \<Rightarrow> None
             | Some obj \<Rightarrow>
                 if isRecord (obj ''botManagement'')
                 then map_option asRecord (obj ''botManagement'') else None)
      in \<lparr> country = readCfString (cf req) ''country'',
           region = readCfString (cf req) ''region'',
           regionCode = readCfString (cf req) ''regionCode'',
           city = readCfString (cf req) ''city'',
           postalCode = readCfString (cf req) ''postalCode'',
           continent = readCfString (cf req) ''continent'',
           timezone = readCfString (cf req) ''timezone'',
           colo = readCfString (cf req) ''colo'',
           asn = readCfInteger toNumber (cf req) ''asn'',
           asOrganization = readCfString (cf req) ''asOrganization'',
           latitude = readCfFloat toNumber (cf req) ''latitude'',
           longitude = readCfFloat toNumber (cf req) ''longitude'',
           botScore = readCfInteger toNumber botManagement ''score'',
           tlsVersion = readCfString (cf req) ''tlsVersion'',
           httpProtocol = readCfString (cf req) ''httpProtocol'' \<rparr>)"

subsection \<open>The table\<close>

text \<open>The columns that the INSERT statement binds, in its order; \<^verbatim>\<open>created_at\<close> and
  \<^verbatim>\<open>updated_at\<close> hold the instant whose ISO text is stored. A row of the table is these
  columns and its \<^verbatim>\<open>id\<close>.\<close>

record entry =
  email :: string
  use_case :: "string option"
  ip_address :: "string option"
  user_agent :: "string option"
  accept_language :: "string option"
  cf_country :: "string option"
  cf_region :: "string option"
  cf_region_code :: "string option"
  cf_city :: "string option"
  cf_postal_code :: "string option"
  cf_continent :: "string option"
  cf_timezone :: "string option"
  cf_colo :: "string option"
  cf_asn :: "real option"
  cf_as_organization :: "string option"
  cf_latitude :: "real option"
  cf_longitude :: "real option"
  cf_bot_score :: "real option"
  cf_tls_version :: "string option"
  cf_http_protocol :: "string option"
  created_at :: int
  updated_at :: int

record row = entry +
  row_id :: nat

text \<open>The database: the rows of \<^verbatim>\<open>waitlist_entries\<close> in insertion order, and the largest
  \<^verbatim>\<open>id\<close> that AUTOINCREMENT has handed out (\<^verbatim>\<open>sqlite_sequence\<close>).\<close>

record store =
  rows :: "row list"
  seq :: nat

text \<open>The rate limiter's \<^verbatim>\<open>SELECT COUNT(*)\<close>.\<close>

definition count_query :: "store \<Rightarrow> string \<Rightarrow> int \<Rightarrow> int \<Rightarrow> int" where
  "count_query db ipAddress dayStart dayEnd =
     int (length (filter (\<lambda>r. ip_address r = Some ipAddress
                               \<and> created_at r \<ge> dayStart \<and> created_at r \<le> dayEnd) (rows db)))"

text \<open>\<^verbatim>\<open>ON CONFLICT(email) DO UPDATE SET\<close>: the twenty columns that are assigned from
  \<^verbatim>\<open>excluded\<close>; \<^verbatim>\<open>id\<close>, \<^verbatim>\<open>email\<close> and \<^verbatim>\<open>created_at\<close> are not among them.\<close>

definition do_update :: "entry \<Rightarrow> row \<Rightarrow> row" where
  "do_update excluded r =
     r\<lparr> use_case := use_case excluded,
        ip_address := ip_address excluded,
        user_agent := user_agent excluded,
        accept_language := accept_language excluded,
        cf_country := cf_country excluded,
        cf_region := cf_region excluded,
        cf_region_code := cf_region_code excluded,
        cf_city := cf_city excluded,
        cf_postal_code := cf_postal_code excluded,
        cf_continent := cf_continent excluded,
        cf_timezone := cf_timezone excluded,
        cf_colo := cf_colo excluded,
        cf_asn := cf_asn excluded,
        cf_as_organization := cf_as_organization excluded,
        cf_latitude := cf_latitude excluded,
        cf_longitude := cf_longitude excluded,
        cf_bot_score := cf_bot_score excluded,
        cf_tls_version := cf_tls_version excluded,
        cf_http_protocol := cf_http_protocol excluded,
        updated_at := updated_at excluded \<rparr>"

text \<open>The whole statement. \<^verbatim>\<open>UNIQUE(email)\<close> compares the texts as they are. SQLite
  draws the fresh \<^verbatim>\<open>id\<close>, one more than every \<^verbatim>\<open>id\<close> the table holds or has handed out,
  before it meets the conflict, and records it in \<^verbatim>\<open>sqlite_sequence\<close> on either path. A row
  with the new email is updated in place and keeps its own \<^verbatim>\<open>id\<close>; otherwise the values are
  appended under the fresh \<^verbatim>\<open>id\<close>.\<close>

definition insert_on_conflict_update :: "entry \<Rightarrow> store \<Rightarrow> store" where
  "insert_on_conflict_update excluded db =
     (let fresh = Suc (fold max (map row_id (rows db)) (seq db))
      in if \<exists>r \<in> set (rows db). email r = email excluded
         then \<lparr> rows = map (\<lambda>r. if email r = email excluded then do_update excluded r else r)
                            (rows db),
                seq = fresh \<rparr>
         else \<lparr> rows = rows db @ [entry.extend excluded (row.fields fresh)],
                seq = fresh \<rparr>)"

subsection \<open>The handler of POST /api/waitlist\<close>

text \<open>The JSON body of a response with its status, and the \<^verbatim>\<open>Retry-After\<close> header: the
  number that \<^verbatim>\<open>String\<close> writes in decimal.\<close>

record response =
  status :: nat
  ok :: bool
  error :: "string option"
  message :: string
  retry_after :: "int option"

text \<open>The handler takes what its environment supplies: the email pattern of zod, the
  runtime's \<^verbatim>\<open>Number\<close> on strings, the variable \<^verbatim>\<open>WAITLIST_RATE_LIMIT_PER_DAY\<close>, the
  clock's reading \<^verbatim>\<open>new Date()\<close>, the request and the database. It returns the response
  and the database after the request, or the exception that escapes. A failure of the
  database itself is not modelled.\<close>

definition post_api_waitlist ::
  "(string \<Rightarrow> bool) \<Rightarrow> (string \<Rightarrow> real option) \<Rightarrow> string option \<Rightarrow> int \<Rightarrow> request \<Rightarrow> store
     \<Rightarrow> exn + (response \<times> store)" where
  "post_api_waitlist emailPattern toNumber WAITLIST_RATE_LIMIT_PER_DAY now req db =
     (case parseRequestBody req of
        Inl e \<Rightarrow> Inl e
      | Inr rawPayload \<Rightarrow>
          (case safeParse emailPattern (normalizePayload rawPayload) of
             None \<Rightarrow>
               Inr (\<lparr> status = 400, ok = False, error = Some ''invalid_payload'',
                      message = ''Please submit a valid email address.'',
                      retry_after = None \<rparr>, db)
           | Some payload \<Rightarrow>
               if (case payload_website payload of None \<Rightarrow> False | Some w \<Rightarrow> length w > 0)
               then Inr (\<lparr> status = 200, ok = True, error = None,
                           message = ''Thanks for your interest.'',
                           retry_after = None \<rparr>, db)
               else
                 (let rateLimitPerDay = parsePositiveInt WAITLIST_RATE_LIMIT_PER_DAY 10;
                      dayStart = startOfUtcDayIso now;
                      dayEnd = endOfUtcDayIso now;
                      ipAddress = getConnectingIp (headers req);
                      submissionCount = count_query db ipAddress dayStart dayEnd
                  in if submissionCount \<ge> rateLimitPerDay
                     then Inr (\<lparr> status = 429, ok = False, error = Some ''rate_limited'',
                                 message = ''Rate limit reached. Please try again tomorrow.'',
                                 retry_after = Some (secondsUntilNextUtcDay now) \<rparr>, db)
                     else
                       (let nowIso = now;
                            cfSnapshot = getCfSnapshot toNumber req
                        in Inr (\<lparr> status = 201, ok = True, error = None,
                                  message = ''You are on the waitlist.'',
                                  retry_after = None \<rparr>,
                                insert_on_conflict_update
                                  \<lparr> email = toLowerCase (payload_email payload),
                                    use_case = payload_useCase payload,
                                    ip_address = Some ipAddress,
                                    user_agent = headers req ''user-agent'',
                                    accept_language = headers req ''accept-language'',
                                    cf_country = country cfSnapshot,
                                    cf_region = region cfSnapshot,
                                    cf_region_code = regionCode cfSnapshot,
                                    cf_city = city cfSnapshot,
                                    cf_postal_code = postalCode cfSnapshot,
                                    cf_continent = continent cfSnapshot,
                                    cf_timezone = timezone cfSnapshot,
                                    cf_colo = colo cfSnapshot,
                                    cf_asn = asn cfSnapshot,
                                    cf_as_organization = asOrganization cfSnapshot,
                                    cf_latitude = latitude cfSnapshot,
                                    cf_longitude = longitude cfSnapshot,
                                    cf_bot_score = botScore cfSnapshot,
                                    cf_tls_version = tlsVersion cfSnapshot,
                                    cf_http_protocol = httpProtocol cfSnapshot,
                                    created_at = nowIso,
                                    updated_at = nowIso \<rparr> db)))))"

subsection \<open>The pattern of z.email()\<close>

text \<open>The default pattern of \<^verbatim>\<open>z.email()\<close> in zod 4, for the concrete runs below:
  \<^verbatim>\<open>/^(?!\.)(?!.*\.\.)([A-Za-z0-9_'+\-\.]*)[A-Za-z0-9_+-]@([A-Za-z0-9][A-Za-z0-9\-]*\.)+[A-Za-z]{2,}$/\<close>.
  The text before the first \<^verbatim>\<open>@\<close> is the local part; the rest, cut at its dots, is one
  or more labels and a final run of two or more letters.\<close>

definition isAlpha :: "char \<Rightarrow> bool" where
  "isAlpha c =
     (let n = (of_char c :: nat) in (65 \<le> n \<and> n \<le> 90) \<or> (97 \<le> n \<and> n \<le> 122))"

definition isAlnum :: "char \<Rightarrow> bool" where
  "isAlnum c = (isAlpha c \<or> isDigit c)"

definition localChar :: "char \<Rightarrow> bool" where
  "localChar c = (isAlnum c \<or> c \<in> set ''_+-.'' \<or> of_char c = (39 :: nat))"

definition localLast :: "char \<Rightarrow> bool" where
  "localLast c = (isAlnum c \<or> c \<in> set ''_+-'')"

definition domainLabel :: "string \<Rightarrow> bool" where
  "domainLabel l =
     (l \<noteq> [] \<and> isAlnum (hd l) \<and> list_all (\<lambda>c. isAlnum c \<or> c = CHR ''-'') l)"

definition zod_email :: "string \<Rightarrow> bool" where
  "zod_email s =
     (let local = takeWhile (\<lambda>c. c \<noteq> CHR ''@'') s;
          rest = dropWhile (\<lambda>c. c \<noteq> CHR ''@'') s;
          pieces = split_char CHR ''.'' (tl rest)
      in rest \<noteq> [] \<and> local \<noteq> [] \<and> hd local \<noteq> CHR ''.'' \<and> \<not> includes_str s ''..''
         \<and> list_all localChar local \<and> localLast (last local)
         \<and> length pieces \<ge> 2 \<and> list_all domainLabel (butlast pieces)
         \<and> length (last pieces) \<ge> 2 \<and> list_all isAlpha (last pieces))"

subsection \<open>Concrete requests and tables for the examples\<close>

text \<open>A JSON request with the headers \<open>hs\<close> beside its content type, whose body is the
  object \<open>body\<close>, with no \<^verbatim>\<open>cf\<close> object.\<close>

definition json_request :: "(string \<times> string) list \<Rightarrow> (string \<times> jsval) list \<Rightarrow> request" where
  "json_request hs body =
     \<lparr> headers = map_of ((''content-type'', ''application/json'') # hs),
       json = Some (JObj body),
       formData = None,
       cf = None \<rparr>"

text \<open>A multipart form request with the headers \<open>hs\<close> beside its content type, whose
  form data is \<open>entries\<close>.\<close>

definition form_request ::
  "(string \<times> string) list \<Rightarrow> (string \<times> FormDataEntryValue) list \<Rightarrow> request" where
  "form_request hs entries =
     \<lparr> headers = map_of ((''content-type'', ''multipart/form-data; boundary=x'') # hs),
       json = None,
       formData = Some entries,
       cf = None \<rparr>"

text \<open>The row that a first submission of \<open>e\<close> from \<open>ip\<close> at the instant \<open>t\<close> leaves
  under the id \<open>i\<close>, when the request had no use case, no other header and no \<^verbatim>\<open>cf\<close>.\<close>

definition stored :: "nat \<Rightarrow> string \<Rightarrow> string \<Rightarrow> int \<Rightarrow> row" where
  "stored i e ip t =
     \<lparr> email = e, use_case = None, ip_address = Some ip, user_agent = None,
       accept_language = None, cf_country = None, cf_region = None, cf_region_code = None,
       cf_city = None, cf_postal_code = None, cf_continent = None, cf_timezone = None,
       cf_colo = None, cf_asn = None, cf_as_organization = None, cf_latitude = None,
       cf_longitude = None, cf_bot_score = None, cf_tls_version = None,
       cf_http_protocol = None, created_at = t, updated_at = t, row_id = i \<rparr>"

text \<open>The four responses of the handler.\<close>

definition resp_created :: response where
  "resp_created = \<lparr> status = 201, ok = True, error = None,
     message = ''You are on the waitlist.'', retry_after = None \<rparr>"


definition resp_invalid :: response where
  "resp_invalid = \<lparr> status = 400, ok = False, error = Some ''invalid_payload'',
     message = ''Please submit a valid email address.'', retry_after = None \<rparr>"

definition resp_rate_limited :: "int \<Rightarrow> response" where
  "resp_rate_limited seconds = \<lparr> status = 429, ok = False, error = Some ''rate_limited'',
     message = ''Rate limit reached. Please try again tomorrow.'',
     retry_after = Some seconds \<rparr>"

section \<open>Properties\<close>

subsection \<open>The calendar\<close>

lemma div_bounds:
  fixes a :: int
  assumes "0 < k"
  shows "k * (a div k) \<le> a" and "a + 1 \<le> k * (a div k) + k"
proof -
  have "a = k * (a div k) + a mod k" by simp
  moreover have "0 \<le> a mod k" "a mod k < k" using assms by simp_all
  ultimately show "k * (a div k) \<le> a" and "a + 1 \<le> k * (a div k) + k" by linarith+
qed

lemma DayFromYear_bounds:
  "400 * DayFromYear y \<le> 146097 * y - 287810498"
  "146097 * y - 287811697 \<le> 400 * DayFromYear y"
proof -
  define a where "a = (y - 1969) div 4"
  define b where "b = (y - 1901) div 100"
  define c where "c = (y - 1601) div 400"
  have a: "4 * a \<le> y - 1969" "y - 1969 + 1 \<le> 4 * a + 4"
    unfolding a_def by (rule div_bounds, simp)+
  have b: "100 * b \<le> y - 1901" "y - 1901 + 1 \<le> 100 * b + 100"
    unfolding b_def by (rule div_bounds, simp)+
  have c: "400 * c \<le> y - 1601" "y - 1601 + 1 \<le> 400 * c + 400"
    unfolding c_def by (rule div_bounds, simp)+
  have D: "400 * DayFromYear y = 146000 * y - 287620000 + 400 * a - 400 * b + 400 * c"
    by (simp add: DayFromYear_def a_def b_def c_def)
  show "400 * DayFromYear y \<le> 146097 * y - 287810498"
    unfolding D using a b c by linarith
  show "146097 * y - 287811697 \<le> 400 * DayFromYear y"
    unfolding D using a b c by linarith
qed

lemma YearFromDay_bounds:
  "DayFromYear (YearFromDay d) \<le> d \<and> d < DayFromYear (YearFromDay d + 1)"
proof -
  define x where "x = (400 * d) div 146097"
  have x: "146097 * x \<le> 400 * d" "400 * d + 1 \<le> 146097 * x + 146097"
    unfolding x_def by (rule div_bounds, simp)+
  have "400 * DayFromYear (1969 + x) \<le> 146097 * x - 145505"
    using DayFromYear_bounds(1)[of "1969 + x"] by simp
  then have lo: "DayFromYear (1969 + x) \<le> d"
    using x by linarith
  have "146097 * x + 291587 \<le> 400 * DayFromYear (1972 + x)"
    using DayFromYear_bounds(2)[of "1972 + x"] by simp
  then have hi: "d < DayFromYear (1972 + x)"
    using x by linarith
  have e: "1970 + x - 1 = 1969 + x" "1970 + x + 1 + 1 = 1972 + x" "1970 + x - 1 + 1 = 1970 + x"
    by simp_all
  show ?thesis
    using lo hi unfolding YearFromDay_def x_def[symmetric] Let_def
    by (simp add: e)
qed

lemma getUTCFullYear_epoch:
  assumes "0 \<le> t"
  shows "1970 \<le> getUTCFullYear t"
proof (rule ccontr)
  assume n: "\<not> 1970 \<le> getUTCFullYear t"
  define y where "y = getUTCFullYear t + 1"
  have y: "y \<le> 1970" using n by (simp add: y_def)
  have d: "Day t < DayFromYear y"
    using YearFromDay_bounds[of "Day t"] by (simp add: getUTCFullYear_def y_def)
  have "0 \<le> Day t"
    using assms by (simp add: Day_def msPerDay_def pos_imp_zdiv_nonneg_iff)
  then have pos: "0 < DayFromYear y" using d by simp
  show False
  proof (cases "y = 1970")
    case True
    then show False using pos by (simp add: DayFromYear_def)
  next
    case False
    then have "y \<le> 1969" using y by simp
    then show False using DayFromYear_bounds(1)[of y] pos by linarith
  qed
qed

lemma getUTCMonth_range: "0 \<le> getUTCMonth t \<and> getUTCMonth t \<le> 11"
  by (simp add: getUTCMonth_def Let_def)

lemma MakeDay_today:
  "MakeDay (getUTCFullYear t) (getUTCMonth t) (getUTCDate t + k) = Day t + k"
proof -
  have "getUTCMonth t div 12 = 0" and "getUTCMonth t mod 12 = getUTCMonth t"
    using getUTCMonth_range[of t] by simp_all
  then show ?thesis
    by (simp add: MakeDay_def getUTCDate_def DayWithinYear_def)
qed

lemma MakeFullYear_clock: "0 \<le> t \<Longrightarrow> MakeFullYear (getUTCFullYear t) = getUTCFullYear t"
  using getUTCFullYear_epoch[of t] by (simp add: MakeFullYear_def)

lemma startOfUtcDayIso_eq: "0 \<le> t \<Longrightarrow> startOfUtcDayIso t = Day t * msPerDay"
  using MakeDay_today[of t 0]
  by (simp add: startOfUtcDayIso_def Date_UTC_def MakeFullYear_clock MakeDate_def MakeTime_def)

lemma endOfUtcDayIso_eq: "0 \<le> t \<Longrightarrow> endOfUtcDayIso t = Day t * msPerDay + 86399999"
  using MakeDay_today[of t 0]
  by (simp add: endOfUtcDayIso_def Date_UTC_def MakeFullYear_clock MakeDate_def MakeTime_def)

lemma secondsUntilNextUtcDay_eq:
  "0 \<le> t \<Longrightarrow> secondsUntilNextUtcDay t = max 1 (ceil_div_1000 ((Day t + 1) * msPerDay - t))"
  using MakeDay_today[of t 1]
  by (simp add: secondsUntilNextUtcDay_def Date_UTC_def MakeFullYear_clock MakeDate_def MakeTime_def)

lemma ceil_div_1000_ceiling: "ceil_div_1000 x = \<lceil>real_of_int x / 1000\<rceil>"
proof -
  have "\<lfloor>real_of_int (- x) / real_of_int 1000\<rfloor> = (- x) div 1000"
    by (rule floor_divide_of_int_eq)
  then show ?thesis by (simp add: ceil_div_1000_def ceiling_def)
qed

lemma day_window:
  "(Day t * msPerDay \<le> c \<and> c \<le> Day t * msPerDay + 86399999) \<longleftrightarrow> Day c = Day t"
proof -
  have c: "msPerDay * Day c \<le> c" "c + 1 \<le> msPerDay * Day c + msPerDay"
    unfolding Day_def by (rule div_bounds, simp add: msPerDay_def)+
  show ?thesis
  proof
    assume h: "Day t * msPerDay \<le> c \<and> c \<le> Day t * msPerDay + 86399999"
    have "Day t * msPerDay < (Day c + 1) * msPerDay" using h c by (simp add: algebra_simps)
    then have 1: "Day t < Day c + 1" by (simp add: msPerDay_def)
    have "Day c * msPerDay < (Day t + 1) * msPerDay" using h c by (simp add: algebra_simps msPerDay_def)
    then have 2: "Day c < Day t + 1" by (simp add: msPerDay_def)
    from 1 2 show "Day c = Day t" by simp
  next
    assume "Day c = Day t"
    then show "Day t * msPerDay \<le> c \<and> c \<le> Day t * msPerDay + 86399999"
      using c by (simp add: algebra_simps msPerDay_def)
  qed
qed

lemma seconds_range:
  "1 \<le> max 1 (ceil_div_1000 ((Day t + 1) * msPerDay - t))
   \<and> max 1 (ceil_div_1000 ((Day t + 1) * msPerDay - t)) \<le> 86400"
proof -
  have c: "msPerDay * Day t \<le> t" "t + 1 \<le> msPerDay * Day t + msPerDay"
    unfolding Day_def by (rule div_bounds, simp add: msPerDay_def)+
  define x where "x = (Day t + 1) * msPerDay - t"
  have x: "0 < x" "x \<le> 86400000" using c by (simp_all add: x_def algebra_simps msPerDay_def)
  have "ceil_div_1000 x \<le> 86400"
  proof -
    have "- 86400000 \<le> - x" using x by simp
    then have "(- 86400000) div 1000 \<le> (- x) div 1000" by (rule zdiv_mono1) simp
    then show ?thesis by (simp add: ceil_div_1000_def)
  qed
  then show ?thesis unfolding x_def[symmetric] by simp
qed

lemma startOfUtcDayIso_clock:
  "clock_ok now \<Longrightarrow> startOfUtcDayIso now = (now div 86400000) * 86400000"
  by (simp add: clock_ok_def startOfUtcDayIso_eq Day_def msPerDay_def)

lemma endOfUtcDayIso_clock:
  "clock_ok now \<Longrightarrow> endOfUtcDayIso now = (now div 86400000) * 86400000 + 86399999"
  by (simp add: clock_ok_def endOfUtcDayIso_eq Day_def msPerDay_def)

subsection \<open>The rate limiter\<close>

lemma handler_429:
  assumes "post_api_waitlist emailPattern toNumber limit now req db = Inr (resp, db')"
    and "status resp = 429"
  shows "retry_after resp = Some (secondsUntilNextUtcDay now)"
  using assms
  by (auto simp: post_api_waitlist_def Let_def split: sum.splits option.splits if_splits)

lemma handler_cleared:
  assumes "parseRequestBody req = Inr raw"
    and "safeParse emailPattern (normalizePayload raw) = Some p"
    and "\<not> (case payload_website p of None \<Rightarrow> False | Some w \<Rightarrow> length w > 0)"
  shows "\<exists>resp db'. post_api_waitlist emailPattern toNumber limit now req db = Inr (resp, db')
     \<and> (status resp = 429 \<longleftrightarrow>
          parsePositiveInt limit 10
            \<le> count_query db (getConnectingIp (headers req))
                 (startOfUtcDayIso now) (endOfUtcDayIso now))"
  using assms
  by (simp add: post_api_waitlist_def Let_def)

text \<open>C3. A request that passes validation and leaves the honeypot empty is answered with
  429 exactly when the rows that carry the requester's IP and were created within the
  current UTC day, from 00:00:00.000 to 23:59:59.999, are at least as many as the
  configured ceiling. The clock reads an instant from 1970 to 9999.\<close>

theorem rate_limit_iff_day_count:
  assumes "clock_ok now"
    and "parseRequestBody req = Inr raw"
    and "safeParse emailPattern (normalizePayload raw) = Some p"
    and "\<not> (case payload_website p of None \<Rightarrow> False | Some w \<Rightarrow> length w > 0)"
  shows "\<exists>resp db'. post_api_waitlist emailPattern toNumber limit now req db = Inr (resp, db')
     \<and> (status resp = 429 \<longleftrightarrow>
          parsePositiveInt limit 10
            \<le> int (length (filter
                  (\<lambda>r. ip_address r = Some (getConnectingIp (headers req))
                       \<and> (now div 86400000) * 86400000 \<le> created_at r
                       \<and> created_at r \<le> (now div 86400000) * 86400000 + 86399999)
                  (rows db))))"
  using handler_cleared[OF assms(2,3,4), of toNumber limit now db]
  by (simp add: count_query_def startOfUtcDayIso_clock[OF assms(1)]
      endOfUtcDayIso_clock[OF assms(1)])

theorem rate_limit_iff_day_count_witness:
  "clock_ok 1700000005000
   \<and> parseRequestBody (json_request [(''cf-connecting-ip'', ''1.2.3.4'')]
         [(''email'', JStr ''User@Example.com'')])
       = Inr (map_of [(''email'', JStr ''User@Example.com'')])
   \<and> safeParse zod_email (normalizePayload (map_of [(''email'', JStr ''User@Example.com'')]))
       = Some \<lparr> payload_email = ''User@Example.com'', payload_useCase = None,
                  payload_website = None \<rparr>
   \<and> (\<exists>resp db'.
         post_api_waitlist zod_email Map.empty (Some ''1'') 1700000005000
           (json_request [(''cf-connecting-ip'', ''1.2.3.4'')]
              [(''email'', JStr ''User@Example.com'')])
           \<lparr> rows = [stored 1 ''other@example.com'' ''1.2.3.4'' 1700000000000], seq = 1 \<rparr>
         = Inr (resp, db')
         \<and> status resp = 429)"
proof -
  let ?body = "[(''email'', JStr ''User@Example.com'')]"
  let ?req = "json_request [(''cf-connecting-ip'', ''1.2.3.4'')] ?body"
  let ?db = "\<lparr> rows = [stored 1 ''other@example.com'' ''1.2.3.4'' 1700000000000], seq = 1 \<rparr>"
  have clock: "clock_ok 1700000005000"
    by (simp add: clock_ok_def)
  have parse: "parseRequestBody ?req = Inr (map_of ?body)"
    by (simp add: parseRequestBody_def json_request_def)
  have valid: "safeParse zod_email (normalizePayload (map_of ?body))
       = Some \<lparr> payload_email = ''User@Example.com'', payload_useCase = None,
                  payload_website = None \<rparr>"
    by code_simp
  have hp: "\<not> (case payload_website \<lparr> payload_email = ''User@Example.com'',
                 payload_useCase = None, payload_website = None \<rparr>
               of None \<Rightarrow> False | Some w \<Rightarrow> length w > 0)"
    by simp
  have ip: "getConnectingIp (headers ?req) = ''1.2.3.4''"
    by (simp add: getConnectingIp_def json_request_def)
  have limit: "parsePositiveInt (Some ''1'') 10 = 1"
    by code_simp
  obtain resp db' where
    run: "post_api_waitlist zod_email Map.empty (Some ''1'') 1700000005000 ?req ?db
            = Inr (resp, db')"
    and iff: "status resp = 429 \<longleftrightarrow>
          parsePositiveInt (Some ''1'') 10
            \<le> int (length (filter
                  (\<lambda>r. ip_address r = Some (getConnectingIp (headers ?req))
                       \<and> (1700000005000 div 86400000) * 86400000 \<le> created_at r
                       \<and> created_at r \<le> (1700000005000 div 86400000) * 86400000 + 86399999)
                  (rows ?db)))"
    using rate_limit_iff_day_count[OF clock parse valid hp, of Map.empty "Some ''1''" ?db]
    by blast
  have "status resp = 429"
    using iff by (simp add: ip limit stored_def)
  with clock parse valid run show ?thesis by blast
qed

text \<open>C7. Every 429 response carries a \<^verbatim>\<open>Retry-After\<close> header: the whole seconds, rounded
  up and at least 1, from the current instant to the next UTC midnight; the value lies
  between 1 and 86400.\<close>

theorem retry_after_whole_seconds:
  assumes "clock_ok now"
    and "post_api_waitlist emailPattern toNumber limit now req db = Inr (resp, db')"
    and "status resp = 429"
  shows "\<exists>n. retry_after resp = Some n
     \<and> n = max 1 \<lceil>real_of_int ((now div 86400000 + 1) * 86400000 - now) / 1000\<rceil>
     \<and> 1 \<le> n \<and> n \<le> 86400"
proof -
  have now: "0 \<le> now" using assms(1) by (simp add: clock_ok_def)
  have "retry_after resp = Some (secondsUntilNextUtcDay now)"
    using assms(2,3) by (rule handler_429)
  moreover have "secondsUntilNextUtcDay now
      = max 1 \<lceil>real_of_int ((now div 86400000 + 1) * 86400000 - now) / 1000\<rceil>"
    by (simp add: secondsUntilNextUtcDay_eq[OF now] ceil_div_1000_ceiling Day_def msPerDay_def)
  moreover have "1 \<le> secondsUntilNextUtcDay now \<and> secondsUntilNextUtcDay now \<le> 86400"
    using seconds_range[of now] by (simp only: secondsUntilNextUtcDay_eq[OF now])
  ultimately show ?thesis by simp
qed

theorem retry_after_whole_seconds_witness:
  "clock_ok 1700000005000
   \<and> post_api_waitlist zod_email Map.empty (Some ''1'') 1700000005000
         (json_request [(''cf-connecting-ip'', ''1.2.3.4'')]
            [(''email'', JStr ''User@Example.com'')])
         \<lparr> rows = [stored 1 ''other@example.com'' ''1.2.3.4'' 1700000000000], seq = 1 \<rparr>
       = Inr (resp_rate_limited 6395,
              \<lparr> rows = [stored 1 ''other@example.com'' ''1.2.3.4'' 1700000000000], seq = 1 \<rparr>)
   \<and> status (resp_rate_limited 6395) = 429
   \<and> (\<exists>n. retry_after (resp_rate_limited 6395) = Some n \<and> 1 \<le> n \<and> n \<le> 86400)"
proof -
  let ?req = "json_request [(''cf-connecting-ip'', ''1.2.3.4'')]
                [(''email'', JStr ''User@Example.com'')]"
  let ?db = "\<lparr> rows = [stored 1 ''other@example.com'' ''1.2.3.4'' 1700000000000], seq = 1 \<rparr>"
  have clock: "clock_ok 1700000005000"
    by (simp add: clock_ok_def)
  have run: "post_api_waitlist zod_email Map.empty (Some ''1'') 1700000005000 ?req ?db
      = Inr (resp_rate_limited 6395, ?db)"
    by code_simp
  have st: "status (resp_rate_limited 6395) = 429"
    by (simp add: resp_rate_limited_def)
  from retry_after_whole_seconds[OF clock run st]
  have "\<exists>n. retry_after (resp_rate_limited 6395) = Some n \<and> 1 \<le> n \<and> n \<le> 86400"
    by blast
  with clock run st show ?thesis by blast
qed

subsection \<open>Strings\<close>

lemma split_char_first: "\<exists>ps. split_char c s = takeWhile (\<lambda>x. x \<noteq> c) s # ps"
  by (induction s) auto

lemma split_comma_first_takeWhile:
  "split_comma_first s = takeWhile (\<lambda>x. x \<noteq> CHR '','') s"
  using split_char_first[of "CHR '',''" s] by (auto simp: split_comma_first_def)

lemma split_comma_first_entry:
  assumes "CHR '','' \<notin> set e"
  shows "split_comma_first e = e" and "split_comma_first (e @ CHR '','' # rest) = e"
proof -
  have all: "\<And>x. x \<in> set e \<Longrightarrow> x \<noteq> CHR '',''" using assms by auto
  show "split_comma_first e = e"
    using all by (simp add: split_comma_first_takeWhile takeWhile_eq_all_conv)
  show "split_comma_first (e @ CHR '','' # rest) = e"
    using all by (simp add: split_comma_first_takeWhile takeWhile_append2)
qed

lemma dropWhile_hd_self: "xs = [] \<or> \<not> P (hd xs) \<Longrightarrow> dropWhile P xs = xs"
  by (cases xs) auto

lemma rev_dropWhile_rev_hd:
  assumes "xs = [] \<or> \<not> P (hd xs)"
  shows "rev (dropWhile P (rev xs)) = [] \<or> \<not> P (hd (rev (dropWhile P (rev xs))))"
using assms proof (induction xs rule: rev_induct)
  case Nil
  then show ?case by simp
next
  case (snoc x xs)
  show ?case
  proof (cases "P x")
    case True
    have "xs = [] \<or> \<not> P (hd xs)" using snoc.prems by (cases xs) auto
    then show ?thesis using snoc.IH True by simp
  next
    case False
    then show ?thesis using snoc.prems by simp
  qed
qed

lemma trim_ends:
  "trim s = [] \<or> (\<not> isWhiteSpace (hd (trim s)) \<and> \<not> isWhiteSpace (last (trim s)))"
proof -
  let ?u = "dropWhile isWhiteSpace s"
  have u: "?u = [] \<or> \<not> isWhiteSpace (hd ?u)"
    using hd_dropWhile[of isWhiteSpace s] by blast
  have front: "trim s = [] \<or> \<not> isWhiteSpace (hd (trim s))"
    unfolding trim_def
    by (rule rev_dropWhile_rev_hd[where xs = "dropWhile isWhiteSpace s" and P = isWhiteSpace, OF u])
  let ?v = "dropWhile isWhiteSpace (rev ?u)"
  have "?v = [] \<or> \<not> isWhiteSpace (hd ?v)"
    using hd_dropWhile[of isWhiteSpace "rev ?u"] by blast
  then have tail_end: "trim s = [] \<or> \<not> isWhiteSpace (last (trim s))"
    by (auto simp: trim_def last_rev)
  from front tail_end show ?thesis by blast
qed

lemma trim_fixed:
  assumes "t = [] \<or> (\<not> isWhiteSpace (hd t) \<and> \<not> isWhiteSpace (last t))"
  shows "trim t = t"
proof (cases "t = []")
  case True
  then show ?thesis by (simp add: trim_def)
next
  case False
  then have h: "\<not> isWhiteSpace (hd t)" and l: "\<not> isWhiteSpace (last t)"
    using assms by auto
  have 1: "dropWhile isWhiteSpace t = t"
    using h by (rule_tac dropWhile_hd_self) simp
  have "hd (rev t) = last t" using False by (simp add: hd_rev)
  then have 2: "dropWhile isWhiteSpace (rev t) = rev t"
    using l by (rule_tac dropWhile_hd_self) simp
  show ?thesis by (simp add: trim_def 1 2)
qed

lemma trim_idem: "trim (trim s) = trim s"
  by (rule trim_fixed) (rule trim_ends)

lemma toOptionalString_trimmed:
  "toOptionalString v = Some t \<Longrightarrow> t \<noteq> [] \<and> trim t = t"
  by (cases v rule: toOptionalString.cases) (auto simp: Let_def trim_idem split: if_splits)

lemma toOptionalString_Some:
  "toOptionalString x = Some s \<Longrightarrow> \<exists>v. x = Some (JStr v) \<and> s = trim v"
  by (cases x rule: toOptionalString.cases) (auto simp: Let_def split: if_splits)

subsection \<open>The client's IP\<close>

text \<open>C8. The IP of a request is the connecting-IP header when that header is present and
  not empty; else, when the forwarded-for header is present and not empty, its first
  comma-separated entry, trimmed; else the text "unknown".\<close>

theorem getConnectingIp_precedence:
  "(\<forall>ip. hs ''cf-connecting-ip'' = Some ip \<and> ip \<noteq> [] \<longrightarrow> getConnectingIp hs = ip)
   \<and> (\<forall>f e rest.
         (hs ''cf-connecting-ip'' = None \<or> hs ''cf-connecting-ip'' = Some [])
         \<and> hs ''x-forwarded-for'' = Some f \<and> f \<noteq> []
         \<and> CHR '','' \<notin> set e \<and> (f = e \<or> f = e @ CHR '','' # rest)
         \<longrightarrow> getConnectingIp hs = trim e)
   \<and> ((hs ''cf-connecting-ip'' = None \<or> hs ''cf-connecting-ip'' = Some [])
        \<and> (hs ''x-forwarded-for'' = None \<or> hs ''x-forwarded-for'' = Some [])
        \<longrightarrow> getConnectingIp hs = ''unknown'')"
proof (intro conjI allI impI)
  fix ip
  assume "hs ''cf-connecting-ip'' = Some ip \<and> ip \<noteq> []"
  then show "getConnectingIp hs = ip" by (simp add: getConnectingIp_def)
next
  fix f e rest
  assume a: "(hs ''cf-connecting-ip'' = None \<or> hs ''cf-connecting-ip'' = Some [])
         \<and> hs ''x-forwarded-for'' = Some f \<and> f \<noteq> []
         \<and> CHR '','' \<notin> set e \<and> (f = e \<or> f = e @ CHR '','' # rest)"
  then have "split_comma_first f = e"
    using split_comma_first_entry(1)[of e] split_comma_first_entry(2)[of e rest] by auto
  with a show "getConnectingIp hs = trim e"
    by (auto simp: getConnectingIp_def)
next
  assume "(hs ''cf-connecting-ip'' = None \<or> hs ''cf-connecting-ip'' = Some [])
        \<and> (hs ''x-forwarded-for'' = None \<or> hs ''x-forwarded-for'' = Some [])"
  then show "getConnectingIp hs = ''unknown''"
    by (auto simp: getConnectingIp_def)
qed

theorem getConnectingIp_precedence_witness:
  "getConnectingIp [''cf-connecting-ip'' \<mapsto> ''1.2.3.4'', ''x-forwarded-for'' \<mapsto> ''9.9.9.9''] = ''1.2.3.4''
   \<and> getConnectingIp [''x-forwarded-for'' \<mapsto> '' 9.9.9.9 , 1.2.3.4''] = ''9.9.9.9''
   \<and> getConnectingIp Map.empty = ''unknown''"
proof -
  let ?h1 = "[''cf-connecting-ip'' \<mapsto> ''1.2.3.4'', ''x-forwarded-for'' \<mapsto> ''9.9.9.9'']"
  let ?h2 = "[''x-forwarded-for'' \<mapsto> '' 9.9.9.9 , 1.2.3.4'']"
  have 1: "getConnectingIp ?h1 = ''1.2.3.4''"
    using getConnectingIp_precedence[of ?h1] by simp
  have "getConnectingIp ?h2 = trim '' 9.9.9.9 ''"
    using getConnectingIp_precedence[of ?h2] by simp
  moreover have "trim '' 9.9.9.9 '' = ''9.9.9.9''"
    by (simp add: trim_def isWhiteSpace_def)
  ultimately have 2: "getConnectingIp ?h2 = ''9.9.9.9''" by simp
  have 3: "getConnectingIp Map.empty = ''unknown''"
    using getConnectingIp_precedence[of Map.empty] by simp
  from 1 2 3 show ?thesis by blast
qed

text \<open>C10. A forwarded-for header whose first entry is empty, as in ",1.2.3.4", gives the
  empty text as the IP, not "unknown". Such a request is counted against the rows whose IP
  is the empty text: with a ceiling of 1 and one row of today under "unknown", it is
  accepted and stored under the empty IP, while a request with no IP header at all is
  rejected.\<close>

theorem empty_forwarded_entry_bucket:
  "getConnectingIp [''x-forwarded-for'' \<mapsto> '',1.2.3.4''] = []
   \<and> getConnectingIp [''x-forwarded-for'' \<mapsto> '',1.2.3.4''] \<noteq> ''unknown''
   \<and> getConnectingIp Map.empty = ''unknown''
   \<and> post_api_waitlist zod_email Map.empty (Some ''1'') 1700000005000
         (json_request [(''x-forwarded-for'', '',1.2.3.4'')] [(''email'', JStr ''new@example.com'')])
         \<lparr> rows = [stored 1 ''other@example.com'' ''unknown'' 1700000000000], seq = 1 \<rparr>
       = Inr (resp_created,
              \<lparr> rows = [stored 1 ''other@example.com'' ''unknown'' 1700000000000,
                         stored 2 ''new@example.com'' [] 1700000005000], seq = 2 \<rparr>)
   \<and> post_api_waitlist zod_email Map.empty (Some ''1'') 1700000005000
         (json_request [] [(''email'', JStr ''new@example.com'')])
         \<lparr> rows = [stored 1 ''other@example.com'' ''unknown'' 1700000000000], seq = 1 \<rparr>
       = Inr (resp_rate_limited 6395,
              \<lparr> rows = [stored 1 ''other@example.com'' ''unknown'' 1700000000000], seq = 1 \<rparr>)"
proof (intro conjI)
  show "getConnectingIp [''x-forwarded-for'' \<mapsto> '',1.2.3.4''] = []"
    by (simp add: getConnectingIp_def split_comma_first_def trim_def)
  then show "getConnectingIp [''x-forwarded-for'' \<mapsto> '',1.2.3.4''] \<noteq> ''unknown''"
    by simp
  show "getConnectingIp Map.empty = ''unknown''"
    by (simp add: getConnectingIp_def)
  show "post_api_waitlist zod_email Map.empty (Some ''1'') 1700000005000
         (json_request [(''x-forwarded-for'', '',1.2.3.4'')] [(''email'', JStr ''new@example.com'')])
         \<lparr> rows = [stored 1 ''other@example.com'' ''unknown'' 1700000000000], seq = 1 \<rparr>
       = Inr (resp_created,
              \<lparr> rows = [stored 1 ''other@example.com'' ''unknown'' 1700000000000,
                         stored 2 ''new@example.com'' [] 1700000005000], seq = 2 \<rparr>)"
    by code_simp
  show "post_api_waitlist zod_email Map.empty (Some ''1'') 1700000005000
         (json_request [] [(''email'', JStr ''new@example.com'')])
         \<lparr> rows = [stored 1 ''other@example.com'' ''unknown'' 1700000000000], seq = 1 \<rparr>
       = Inr (resp_rate_limited 6395,
              \<lparr> rows = [stored 1 ''other@example.com'' ''unknown'' 1700000000000], seq = 1 \<rparr>)"
    by code_simp
qed

subsection \<open>The configured ceiling\<close>

lemma digit_facts:
  assumes "isDigit c"
  shows "\<not> isWhiteSpace c" and "c \<noteq> CHR ''+''" and "c \<noteq> CHR ''-''" and "0 \<le> digitValue c"
  using assms by (auto simp: isDigit_def isWhiteSpace_def digitValue_def)

lemma foldl_digits_nonneg:
  "list_all isDigit ds \<Longrightarrow> 0 \<le> a \<Longrightarrow> 0 \<le> foldl (\<lambda>acc c. 10 * acc + digitValue c) a ds"
proof (induction ds arbitrary: a)
  case Nil
  then show ?case by simp
next
  case (Cons d ds)
  have "0 \<le> 10 * a + digitValue d"
    using Cons.prems digit_facts(4)[of d] by simp
  then show ?case using Cons by simp
qed

lemma digitsValue_nonneg: "list_all isDigit ds \<Longrightarrow> 0 \<le> digitsValue ds"
  unfolding digitsValue_def by (rule foldl_digits_nonneg) simp_all

lemma takeWhile_digits:
  assumes "list_all isDigit ds" and "rest = [] \<or> \<not> isDigit (hd rest)"
  shows "takeWhile isDigit (ds @ rest) = ds"
proof -
  have "takeWhile isDigit rest = []" using assms(2) by (cases rest) auto
  then show ?thesis using assms(1) by (simp add: takeWhile_append2 list_all_iff)
qed

lemma parseInt10_prefix:
  assumes ws: "list_all isWhiteSpace ws"
    and sg: "sg = [] \<or> sg = ''+'' \<or> sg = ''-''"
    and ds: "list_all isDigit ds"
    and rest: "rest = [] \<or> \<not> isDigit (hd rest)"
    and start: "sg = [] \<and> ds = [] \<longrightarrow>
       rest = [] \<or> (\<not> isWhiteSpace (hd rest) \<and> hd rest \<noteq> CHR ''+'' \<and> hd rest \<noteq> CHR ''-'')"
  shows "parseInt10 (ws @ sg @ ds @ rest) =
     (if ds = [] then None
      else Some ((if sg = ''-'' then - 1 else 1) * digitsValue ds))"
proof -
  let ?x = "sg @ ds @ rest"
  have tw: "takeWhile isDigit (ds @ rest) = ds"
    using ds rest by (rule takeWhile_digits)
  have hdx: "?x = [] \<or> \<not> isWhiteSpace (hd ?x)"
  proof (cases "sg = []")
    case False
    then show ?thesis using sg by (auto simp: isWhiteSpace_def)
  next
    case True
    show ?thesis
    proof (cases ds)
      case Nil
      then show ?thesis using True start by auto
    next
      case (Cons d ds')
      then show ?thesis using True ds digit_facts(1)[of d] by simp
    qed
  qed
  have dw: "dropWhile isWhiteSpace (ws @ ?x) = ?x"
    using ws hdx by (simp add: dropWhile_append2 list_all_iff dropWhile_hd_self)
  consider (none) "sg = []" | (plus) "sg = ''+''" | (minus) "sg = ''-''"
    using sg by blast
  then show ?thesis
  proof cases
    case none
    have nosign: "ds @ rest = [] \<or> (hd (ds @ rest) \<noteq> CHR ''+'' \<and> hd (ds @ rest) \<noteq> CHR ''-'')"
    proof (cases ds)
      case Nil
      then show ?thesis using none start by auto
    next
      case (Cons d ds')
      then show ?thesis using ds digit_facts(2,3)[of d] by simp
    qed
    have s1: "(ds @ rest \<noteq> [] \<and> hd (ds @ rest) = CHR ''-'') = False"
      and s2: "(ds @ rest \<noteq> []
                \<and> (hd (ds @ rest) = CHR ''+'' \<or> hd (ds @ rest) = CHR ''-'')) = False"
      using nosign by blast+
    have dw0: "dropWhile isWhiteSpace (ws @ ds @ rest) = ds @ rest"
      using dw none by simp
    have "parseInt10 (ws @ ds @ rest) = (if ds = [] then None else Some (1 * digitsValue ds))"
      unfolding parseInt10_def Let_def dw0 s1 s2 if_False tw by (rule refl)
    then show ?thesis
      using none by simp
  next
    case plus
    show ?thesis
      using dw tw plus by (simp add: parseInt10_def Let_def)
  next
    case minus
    show ?thesis
      using dw tw minus by (simp add: parseInt10_def Let_def)
  qed
qed

text \<open>C9, as the code has it. The ceiling is the integer that \<^verbatim>\<open>parseInt\<close> reads from the
  variable: after leading white space and one optional sign, the longest run of decimal
  digits, whatever follows the run. The ceiling is that integer when it is at least 1
  (the integer itself up to \<open>2 ^ 53\<close>), and the default 10 when the variable is absent
  or empty, when no digit follows the optional sign, or when the integer is zero or
  negative.\<close>

theorem parsePositiveInt_reads_prefix:
  assumes "list_all isWhiteSpace ws"
    and "sg = [] \<or> sg = ''+'' \<or> sg = ''-''"
    and "list_all isDigit ds"
    and "rest = [] \<or> \<not> isDigit (hd rest)"
    and "sg = [] \<and> ds = [] \<longrightarrow>
       rest = [] \<or> (\<not> isWhiteSpace (hd rest) \<and> hd rest \<noteq> CHR ''+'' \<and> hd rest \<noteq> CHR ''-'')"
    and "digitsValue ds \<le> 2 ^ 53"
  shows "parsePositiveInt (Some (ws @ sg @ ds @ rest)) 10 =
           (if ds \<noteq> [] \<and> sg \<noteq> ''-'' \<and> 1 \<le> digitsValue ds then digitsValue ds else 10)
         \<and> parsePositiveInt None 10 = 10"
proof -
  have p: "parseInt10 (ws @ sg @ ds @ rest) =
     (if ds = [] then None
      else Some ((if sg = ''-'' then - 1 else 1) * digitsValue ds))"
    using assms(1-5) by (rule parseInt10_prefix)
  have nn: "0 \<le> digitsValue ds"
    using assms(3) by (rule digitsValue_nonneg)
  have "(2::int) ^ 53 < 2 ^ 1024 - 2 ^ 970" by simp
  then have fin: "Number_isFinite (digitsValue ds)"
    using nn assms(6) by (simp add: Number_isFinite_def)
  have empty: "ds = [] \<Longrightarrow> parseInt10 [] = None"
    by (simp add: parseInt10_def)
  show ?thesis
  proof (cases "ds = []")
    case True
    then show ?thesis
      using p by (simp add: parsePositiveInt_def parseInt10_def)
  next
    case False
    then have ne: "ws @ sg @ ds @ rest \<noteq> []" by simp
    show ?thesis
      using p False ne nn fin
      by (auto simp: parsePositiveInt_def Number_isFinite_def)
  qed
qed

theorem parsePositiveInt_reads_prefix_witness:
  "parsePositiveInt (Some '' 25 per day'') 10 = 25
   \<and> parsePositiveInt (Some ''7abc'') 10 = 7
   \<and> parsePositiveInt (Some ''-3'') 10 = 10
   \<and> parsePositiveInt (Some ''ten'') 10 = 10
   \<and> parsePositiveInt None 10 = 10"
proof -
  have d25: "digitsValue ''25'' = 25" and d7: "digitsValue ''7'' = 7"
    and d3: "digitsValue ''3'' = 3" and d0: "digitsValue [] = 0"
    by (simp_all add: digitsValue_def digitValue_def)
  have 1: "parsePositiveInt (Some '' 25 per day'') 10 = 25"
    using parsePositiveInt_reads_prefix[of "'' ''" "[]" "''25''" "'' per day''"]
    by (simp add: isWhiteSpace_def isDigit_def d25)
  have 2: "parsePositiveInt (Some ''7abc'') 10 = 7"
    using parsePositiveInt_reads_prefix[of "[]" "[]" "''7''" "''abc''"]
    by (simp add: isWhiteSpace_def isDigit_def d7)
  have 3: "parsePositiveInt (Some ''-3'') 10 = 10"
    using parsePositiveInt_reads_prefix[of "[]" "''-''" "''3''" "[]"]
    by (simp add: isWhiteSpace_def isDigit_def d3)
  have 4: "parsePositiveInt (Some ''ten'') 10 = 10 \<and> parsePositiveInt None 10 = 10"
    using parsePositiveInt_reads_prefix[of "[]" "[]" "[]" "''ten''"]
    by (simp add: isWhiteSpace_def isDigit_def d0)
  from 1 2 3 4 show ?thesis by blast
qed

text \<open>The claim as the specification words it fails: "7abc" is not the text of a positive
  integer (it is not a run of digits), and the ceiling read from it is 7, not the
  default.\<close>

theorem parsePositiveInt_trailing_text_counterexample:
  "\<not> list_all isDigit ''7abc''
   \<and> parsePositiveInt (Some ''7abc'') 10 = 7
   \<and> parsePositiveInt (Some ''7abc'') 10 \<noteq> 10"
  by (simp add: parsePositiveInt_def parseInt10_def isWhiteSpace_def isDigit_def
      digitsValue_def digitValue_def Number_isFinite_def)

subsection \<open>Validation and the honeypot\<close>

lemma normalized_trimmed:
  "norm_email (normalizePayload raw) = Some e \<Longrightarrow> e \<noteq> [] \<and> trim e = e"
  "norm_useCase (normalizePayload raw) = Some u \<Longrightarrow> u \<noteq> [] \<and> trim u = u"
  "norm_website (normalizePayload raw) = Some w \<Longrightarrow> w \<noteq> [] \<and> trim w = w"
  by (simp_all add: normalizePayload_def toOptionalString_trimmed)

lemma handler_invalid:
  assumes "parseRequestBody req = Inr raw"
    and "safeParse emailPattern (normalizePayload raw) = None"
  shows "post_api_waitlist emailPattern toNumber limit now req db =
     Inr (\<lparr> status = 400, ok = False, error = Some ''invalid_payload'',
            message = ''Please submit a valid email address.'', retry_after = None \<rparr>, db)"
  using assms by (simp add: post_api_waitlist_def)

text \<open>C5. When the normalized payload fails validation, because the email is missing, does
  not match the email pattern or is longer than 320 characters, or the use case is longer
  than 1200 characters, or the website is longer than 200 characters, the handler
  answers 400 with the error "invalid_payload" and the message "Please submit a valid
  email address.", and the table is as it was.\<close>

theorem invalid_payload_rejected:
  assumes "parseRequestBody req = Inr raw"
    and "norm_email (normalizePayload raw) = None
         \<or> (\<exists>e. norm_email (normalizePayload raw) = Some e
                \<and> (\<not> emailPattern e \<or> length e > 320))
         \<or> (\<exists>u. norm_useCase (normalizePayload raw) = Some u \<and> length u > 1200)
         \<or> (\<exists>w. norm_website (normalizePayload raw) = Some w \<and> length w > 200)"
  shows "post_api_waitlist emailPattern toNumber limit now req db =
     Inr (\<lparr> status = 400, ok = False, error = Some ''invalid_payload'',
            message = ''Please submit a valid email address.'', retry_after = None \<rparr>, db)"
proof -
  have "safeParse emailPattern (normalizePayload raw) = None"
    using assms(2) normalized_trimmed[of raw]
    by (auto simp: safeParse_def split: option.splits)
  with assms(1) show ?thesis by (rule handler_invalid)
qed

theorem invalid_payload_rejected_witness:
  "parseRequestBody (json_request [(''cf-connecting-ip'', ''1.2.3.4'')]
       [(''email'', JStr ''not-an-email'')])
     = Inr (map_of [(''email'', JStr ''not-an-email'')])
   \<and> norm_email (normalizePayload (map_of [(''email'', JStr ''not-an-email'')]))
       = Some ''not-an-email''
   \<and> \<not> zod_email ''not-an-email''
   \<and> post_api_waitlist zod_email Map.empty None 1700000005000
         (json_request [(''cf-connecting-ip'', ''1.2.3.4'')] [(''email'', JStr ''not-an-email'')])
         \<lparr> rows = [stored 1 ''other@example.com'' ''1.2.3.4'' 1700000000000], seq = 1 \<rparr>
       = Inr (resp_invalid,
              \<lparr> rows = [stored 1 ''other@example.com'' ''1.2.3.4'' 1700000000000], seq = 1 \<rparr>)"
proof -
  let ?body = "[(''email'', JStr ''not-an-email'')]"
  let ?req = "json_request [(''cf-connecting-ip'', ''1.2.3.4'')] ?body"
  let ?db = "\<lparr> rows = [stored 1 ''other@example.com'' ''1.2.3.4'' 1700000000000], seq = 1 \<rparr>"
  have parse: "parseRequestBody ?req = Inr (map_of ?body)"
    by (simp add: parseRequestBody_def json_request_def)
  have norm: "norm_email (normalizePayload (map_of ?body)) = Some ''not-an-email''"
    by (simp add: normalizePayload_def trim_def isWhiteSpace_def)
  have bad: "\<not> zod_email ''not-an-email''"
    by code_simp
  have cause: "norm_email (normalizePayload (map_of ?body)) = None
         \<or> (\<exists>e. norm_email (normalizePayload (map_of ?body)) = Some e
                \<and> (\<not> zod_email e \<or> length e > 320))
         \<or> (\<exists>u. norm_useCase (normalizePayload (map_of ?body)) = Some u \<and> length u > 1200)
         \<or> (\<exists>w. norm_website (normalizePayload (map_of ?body)) = Some w \<and> length w > 200)"
    using norm bad by blast
  have "post_api_waitlist zod_email Map.empty None 1700000005000 ?req ?db
      = Inr (resp_invalid, ?db)"
    using invalid_payload_rejected[OF parse cause, of Map.empty None 1700000005000 ?db]
    by (simp add: resp_invalid_def)
  with parse norm bad show ?thesis by blast
qed







subsection \<open>Decoding and normalizing\<close>

lemma nullish_cases: "nullish a b = a \<or> nullish a b = b"
  by (cases "(a, b)" rule: nullish.cases) auto

lemma formEntry_apply:
  "formEntry m (key, val) k =
     (if k = key then
        (case val of FormString v \<Rightarrow> Some (JStr v) | File n \<Rightarrow> Some (JStr n))
      else m k)"
  by (cases val) (simp_all add: formEntry_def)

lemma foldl_formEntry:
  "foldl formEntry m entries k =
     (case map_of (rev entries) k of
        None \<Rightarrow> m k
      | Some (FormString v) \<Rightarrow> Some (JStr v)
      | Some (File n) \<Rightarrow> Some (JStr n))"
proof (induction entries arbitrary: m)
  case Nil
  then show ?case by simp
next
  case (Cons kv entries)
  obtain key val where kv: "kv = (key, val)" by (cases kv)
  have step: "foldl formEntry m ((key, val) # entries) k =
     (case map_of (rev entries) k of
        None \<Rightarrow> formEntry m (key, val) k
      | Some (FormString v) \<Rightarrow> Some (JStr v)
      | Some (File n) \<Rightarrow> Some (JStr n))"
    using Cons[of "formEntry m (key, val)"] by simp
  have look: "map_of (rev ((key, val) # entries)) k =
     (case map_of (rev entries) k of
        None \<Rightarrow> (if k = key then Some val else None)
      | Some e \<Rightarrow> Some e)"
    by (simp add: map_add_def split: option.splits)
  show ?case
    unfolding kv step look
    by (cases val) (simp_all add: formEntry_apply split: option.splits)
qed

text \<open>C6, as the code has it. In the normalizer no value is coerced: each normalized field
  is the trimmed text of a string found under one of the field's keys, and a field whose
  value (for the aliases: the first value that is neither absent nor null) is not a
  string is absent from the normalized payload. Before the normalizer, the form decoder
  replaces a file entry by the file's name: under the entry's key the normalizer finds
  that name as a string.\<close>

theorem normalizer_reads_strings_only:
  "(\<forall>s. norm_email (normalizePayload raw) = Some s
         \<longrightarrow> (\<exists>v. raw ''email'' = Some (JStr v) \<and> s = trim v))
   \<and> (\<forall>s. norm_useCase (normalizePayload raw) = Some s
         \<longrightarrow> (\<exists>k v. k \<in> {''useCase'', ''use_case'', ''intent'', ''description''}
                    \<and> raw k = Some (JStr v) \<and> s = trim v))
   \<and> (\<forall>s. norm_website (normalizePayload raw) = Some s
         \<longrightarrow> (\<exists>k v. k \<in> {''website'', ''company''} \<and> raw k = Some (JStr v) \<and> s = trim v))
   \<and> ((\<forall>v. raw ''email'' \<noteq> Some (JStr v)) \<longrightarrow> norm_email (normalizePayload raw) = None)
   \<and> ((\<forall>v. nullish (nullish (nullish (raw ''useCase'') (raw ''use_case'')) (raw ''intent''))
               (raw ''description'') \<noteq> Some (JStr v))
        \<longrightarrow> norm_useCase (normalizePayload raw) = None)
   \<and> ((\<forall>v. nullish (raw ''website'') (raw ''company'') \<noteq> Some (JStr v))
        \<longrightarrow> norm_website (normalizePayload raw) = None)
   \<and> (\<forall>ct entries k n.
         headers req ''content-type'' = Some ct
         \<and> \<not> includes_str ct ''application/json''
         \<and> (includes_str ct ''application/x-www-form-urlencoded''
              \<or> includes_str ct ''multipart/form-data'')
         \<and> formData req = Some entries
         \<and> map_of (rev entries) k = Some (File n)
         \<longrightarrow> (\<exists>decoded. parseRequestBody req = Inr decoded \<and> decoded k = Some (JStr n)))"
proof (intro conjI allI impI)
  fix s
  assume "norm_email (normalizePayload raw) = Some s"
  then show "\<exists>v. raw ''email'' = Some (JStr v) \<and> s = trim v"
    by (simp add: normalizePayload_def toOptionalString_Some)
next
  fix s
  assume "norm_useCase (normalizePayload raw) = Some s"
  then obtain v where
    v: "nullish (nullish (nullish (raw ''useCase'') (raw ''use_case'')) (raw ''intent''))
          (raw ''description'') = Some (JStr v)" and s: "s = trim v"
    using toOptionalString_Some by (fastforce simp: normalizePayload_def)
  have "raw ''useCase'' = Some (JStr v) \<or> raw ''use_case'' = Some (JStr v)
        \<or> raw ''intent'' = Some (JStr v) \<or> raw ''description'' = Some (JStr v)"
    using v nullish_cases[of "raw ''useCase''" "raw ''use_case''"]
      nullish_cases[of "nullish (raw ''useCase'') (raw ''use_case'')" "raw ''intent''"]
      nullish_cases[of "nullish (nullish (raw ''useCase'') (raw ''use_case'')) (raw ''intent'')"
        "raw ''description''"]
    by metis
  then show "\<exists>k v. k \<in> {''useCase'', ''use_case'', ''intent'', ''description''}
                    \<and> raw k = Some (JStr v) \<and> s = trim v"
    using s by blast
next
  fix s
  assume "norm_website (normalizePayload raw) = Some s"
  then obtain v where
    v: "nullish (raw ''website'') (raw ''company'') = Some (JStr v)" and s: "s = trim v"
    using toOptionalString_Some by (fastforce simp: normalizePayload_def)
  have "raw ''website'' = Some (JStr v) \<or> raw ''company'' = Some (JStr v)"
    using v nullish_cases[of "raw ''website''" "raw ''company''"] by metis
  then show "\<exists>k v. k \<in> {''website'', ''company''} \<and> raw k = Some (JStr v) \<and> s = trim v"
    using s by blast
next
  assume "\<forall>v. raw ''email'' \<noteq> Some (JStr v)"
  then show "norm_email (normalizePayload raw) = None"
    using toOptionalString_Some[of "raw ''email''"]
    by (cases "norm_email (normalizePayload raw)") (auto simp: normalizePayload_def)
next
  assume a: "\<forall>v. nullish (nullish (nullish (raw ''useCase'') (raw ''use_case'')) (raw ''intent''))
               (raw ''description'') \<noteq> Some (JStr v)"
  show "norm_useCase (normalizePayload raw) = None"
  proof (cases "norm_useCase (normalizePayload raw)")
    case None
    then show ?thesis .
  next
    case (Some s)
    then show ?thesis
      using a toOptionalString_Some by (fastforce simp: normalizePayload_def)
  qed
next
  assume a: "\<forall>v. nullish (raw ''website'') (raw ''company'') \<noteq> Some (JStr v)"
  show "norm_website (normalizePayload raw) = None"
  proof (cases "norm_website (normalizePayload raw)")
    case None
    then show ?thesis .
  next
    case (Some s)
    then show ?thesis
      using a toOptionalString_Some by (fastforce simp: normalizePayload_def)
  qed
next
  fix ct entries k n
  assume a: "headers req ''content-type'' = Some ct
         \<and> \<not> includes_str ct ''application/json''
         \<and> (includes_str ct ''application/x-www-form-urlencoded''
              \<or> includes_str ct ''multipart/form-data'')
         \<and> formData req = Some entries
         \<and> map_of (rev entries) k = Some (File n)"
  then have "parseRequestBody req = Inr (foldl formEntry Map.empty entries)"
    by (auto simp: parseRequestBody_def)
  moreover have "foldl formEntry Map.empty entries k = Some (JStr n)"
    using a by (simp add: foldl_formEntry)
  ultimately show "\<exists>decoded. parseRequestBody req = Inr decoded \<and> decoded k = Some (JStr n)"
    by blast
qed

theorem normalizer_reads_strings_only_witness:
  "norm_email (normalizePayload
       (map_of [(''email'', JNum (Some 5)), (''useCase'', JBool True),
                (''use_case'', JStr ''hello'')])) = None
   \<and> norm_useCase (normalizePayload
       (map_of [(''email'', JNum (Some 5)), (''useCase'', JBool True),
                (''use_case'', JStr ''hello'')])) = None
   \<and> (\<exists>decoded. parseRequestBody (form_request [] [(''use_case'', File ''notes.txt'')])
                   = Inr decoded
                 \<and> decoded ''use_case'' = Some (JStr ''notes.txt''))"
proof -
  let ?raw = "map_of [(''email'', JNum (Some 5)), (''useCase'', JBool True),
                      (''use_case'', JStr ''hello'')]"
  let ?req = "form_request [] [(''use_case'', File ''notes.txt'')]"
  note inst = normalizer_reads_strings_only[of ?raw ?req]
  have 1: "norm_email (normalizePayload ?raw) = None"
    using inst by simp
  have 2: "norm_useCase (normalizePayload ?raw) = None"
    using inst by simp
  have ct: "headers ?req ''content-type'' = Some ''multipart/form-data; boundary=x''"
    and fd: "formData ?req = Some [(''use_case'', File ''notes.txt'')]"
    by (simp_all add: form_request_def)
  have inc: "\<not> includes_str ''multipart/form-data; boundary=x'' ''application/json''"
    "includes_str ''multipart/form-data; boundary=x'' ''multipart/form-data''"
    by simp_all
  have look: "map_of (rev [(''use_case'', File ''notes.txt'')]) ''use_case''
      = Some (File ''notes.txt'')"
    by simp
  have 3: "\<exists>decoded. parseRequestBody ?req = Inr decoded
                 \<and> decoded ''use_case'' = Some (JStr ''notes.txt'')"
    using inst ct fd inc look by blast
  from 1 2 3 show ?thesis by blast
qed

text \<open>The claim as the specification words it fails: the file entries of a form are not
  strings, and their names are validated and stored as the email and the use case.\<close>

theorem file_entry_stored_counterexample:
  "post_api_waitlist zod_email Map.empty None 1700000005000
     (form_request [(''cf-connecting-ip'', ''1.2.3.4'')]
        [(''email'', File ''a@b.co''), (''use_case'', File ''notes.txt'')])
     \<lparr> rows = [], seq = 0 \<rparr>
   = Inr (resp_created,
          \<lparr> rows = [(stored 1 ''a@b.co'' ''1.2.3.4'' 1700000005000)
                       \<lparr> use_case := Some ''notes.txt'' \<rparr>],
            seq = 1 \<rparr>)"
  by code_simp

subsection \<open>The upsert\<close>

lemma filter_key_distinct:
  assumes "distinct (map f xs)" and "x \<in> set xs"
  shows "filter (\<lambda>y. f y = f x) xs = [x]"
using assms proof (induction xs)
  case Nil
  then show ?case by simp
next
  case (Cons a xs)
  show ?case
  proof (cases "a = x")
    case True
    have "\<And>y. y \<in> set xs \<Longrightarrow> f y \<noteq> f x"
      using Cons.prems(1) True by (metis distinct.simps(2) image_eqI list.simps(9) set_map)
    then have "filter (\<lambda>y. f y = f x) xs = []"
      by (simp add: filter_empty_conv)
    then show ?thesis using True by simp
  next
    case False
    then have "x \<in> set xs" using Cons.prems(2) by simp
    moreover have "f a \<noteq> f x"
      using Cons.prems(1) \<open>x \<in> set xs\<close> by auto
    ultimately show ?thesis using Cons by simp
  qed
qed

lemma do_update_keeps:
  "email (do_update excluded r) = email r"
  "row_id (do_update excluded r) = row_id r"
  "created_at (do_update excluded r) = created_at r"
  by (simp_all add: do_update_def)

lemma conflict_rows:
  assumes "distinct (map email (rows db))"
    and "old \<in> set (rows db)"
    and "email old = email excluded"
  shows "filter (\<lambda>r. email r = email excluded) (rows (insert_on_conflict_update excluded db))
           = [do_update excluded old]"
    and "length (rows (insert_on_conflict_update excluded db)) = length (rows db)"
    and "filter (\<lambda>r. email r \<noteq> email excluded) (rows (insert_on_conflict_update excluded db))
           = filter (\<lambda>r. email r \<noteq> email excluded) (rows db)"
    and "map email (rows (insert_on_conflict_update excluded db)) = map email (rows db)"
proof -
  let ?f = "\<lambda>r. if email r = email excluded then do_update excluded r else r"
  have rows': "rows (insert_on_conflict_update excluded db) = map ?f (rows db)"
    using assms(2,3) by (auto simp: insert_on_conflict_update_def)
  have keep: "\<And>r. email (?f r) = email r"
    by (simp add: do_update_keeps)
  have one: "filter (\<lambda>r. email r = email excluded) (rows db) = [old]"
    using filter_key_distinct[OF assms(1,2)] assms(3) by simp
  have "filter (\<lambda>r. email r = email excluded) (map ?f (rows db))
      = map ?f (filter (\<lambda>r. email r = email excluded) (rows db))"
    by (simp add: filter_map comp_def keep)
  then show "filter (\<lambda>r. email r = email excluded) (rows (insert_on_conflict_update excluded db))
           = [do_update excluded old]"
    using one assms(3) by (simp add: rows')
  show "length (rows (insert_on_conflict_update excluded db)) = length (rows db)"
    by (simp add: rows')
  have "filter (\<lambda>r. email r \<noteq> email excluded) (map ?f (rows db))
      = map ?f (filter (\<lambda>r. email r \<noteq> email excluded) (rows db))"
    by (simp add: filter_map comp_def keep)
  also have "\<dots> = filter (\<lambda>r. email r \<noteq> email excluded) (rows db)"
    by (rule map_idI) simp
  finally show "filter (\<lambda>r. email r \<noteq> email excluded)
        (rows (insert_on_conflict_update excluded db))
           = filter (\<lambda>r. email r \<noteq> email excluded) (rows db)"
    by (simp add: rows')
  show "map email (rows (insert_on_conflict_update excluded db)) = map email (rows db)"
    by (simp add: rows' comp_def keep)
qed

lemma handler_accepted:
  assumes "parseRequestBody req = Inr raw"
    and "safeParse emailPattern (normalizePayload raw) = Some p"
    and "post_api_waitlist emailPattern toNumber limit now req db = Inr (resp, db')"
    and "status resp = 201"
  shows "\<exists>excluded. db' = insert_on_conflict_update excluded db
     \<and> email excluded = toLowerCase (payload_email p)
     \<and> use_case excluded = payload_useCase p
     \<and> ip_address excluded = Some (getConnectingIp (headers req))
     \<and> user_agent excluded = headers req ''user-agent''
     \<and> accept_language excluded = headers req ''accept-language''
     \<and> cf_country excluded = country (getCfSnapshot toNumber req)
     \<and> cf_region excluded = region (getCfSnapshot toNumber req)
     \<and> cf_region_code excluded = regionCode (getCfSnapshot toNumber req)
     \<and> cf_city excluded = city (getCfSnapshot toNumber req)
     \<and> cf_postal_code excluded = postalCode (getCfSnapshot toNumber req)
     \<and> cf_continent excluded = continent (getCfSnapshot toNumber req)
     \<and> cf_timezone excluded = timezone (getCfSnapshot toNumber req)
     \<and> cf_colo excluded = colo (getCfSnapshot toNumber req)
     \<and> cf_asn excluded = asn (getCfSnapshot toNumber req)
     \<and> cf_as_organization excluded = asOrganization (getCfSnapshot toNumber req)
     \<and> cf_latitude excluded = latitude (getCfSnapshot toNumber req)
     \<and> cf_longitude excluded = longitude (getCfSnapshot toNumber req)
     \<and> cf_bot_score excluded = botScore (getCfSnapshot toNumber req)
     \<and> cf_tls_version excluded = tlsVersion (getCfSnapshot toNumber req)
     \<and> cf_http_protocol excluded = httpProtocol (getCfSnapshot toNumber req)
     \<and> created_at excluded = now
     \<and> updated_at excluded = now"
proof -
  let ?snap = "getCfSnapshot toNumber req"
  let ?ex = "\<lparr> email = toLowerCase (payload_email p),
                use_case = payload_useCase p,
                ip_address = Some (getConnectingIp (headers req)),
                user_agent = headers req ''user-agent'',
                accept_language = headers req ''accept-language'',
                cf_country = country ?snap,
                cf_region = region ?snap,
                cf_region_code = regionCode ?snap,
                cf_city = city ?snap,
                cf_postal_code = postalCode ?snap,
                cf_continent = continent ?snap,
                cf_timezone = timezone ?snap,
                cf_colo = colo ?snap,
                cf_asn = asn ?snap,
                cf_as_organization = asOrganization ?snap,
                cf_latitude = latitude ?snap,
                cf_longitude = longitude ?snap,
                cf_bot_score = botScore ?snap,
                cf_tls_version = tlsVersion ?snap,
                cf_http_protocol = httpProtocol ?snap,
                created_at = now,
                updated_at = now \<rparr>"
  have "db' = insert_on_conflict_update ?ex db"
    using assms by (auto simp: post_api_waitlist_def Let_def split: if_splits)
  then show ?thesis
    by (intro exI[of _ ?ex]) simp
qed

text \<open>\<^verbatim>\<open>UNIQUE(email)\<close> is an invariant of the table: the statement, and so every run of
  the handler, keeps the emails of the rows distinct.\<close>

lemma upsert_keeps_unique:
  assumes "distinct (map email (rows db))"
  shows "distinct (map email (rows (insert_on_conflict_update excluded db)))"
proof (cases "\<exists>r \<in> set (rows db). email r = email excluded")
  case True
  then obtain old where "old \<in> set (rows db)" "email old = email excluded" by blast
  then show ?thesis
    using conflict_rows(4)[OF assms] assms by simp
next
  case False
  then have "email excluded \<notin> set (map email (rows db))" by auto
  then show ?thesis
    using assms False by (simp add: insert_on_conflict_update_def Let_def entry.defs)
qed

lemma handler_keeps_unique:
  assumes "distinct (map email (rows db))"
    and "post_api_waitlist emailPattern toNumber limit now req db = Inr (resp, db')"
  shows "distinct (map email (rows db'))"
proof -
  have "db' = db \<or> (\<exists>excluded. db' = insert_on_conflict_update excluded db)"
    using assms(2)
    by (auto simp: post_api_waitlist_def Let_def split: sum.splits option.splits if_splits)
  then show ?thesis
    using assms(1) upsert_keeps_unique by auto
qed

lemma getCfSnapshot_reads:
  "country (getCfSnapshot toNumber req) = readCfString (cf req) ''country''"
  "region (getCfSnapshot toNumber req) = readCfString (cf req) ''region''"
  "regionCode (getCfSnapshot toNumber req) = readCfString (cf req) ''regionCode''"
  "city (getCfSnapshot toNumber req) = readCfString (cf req) ''city''"
  "postalCode (getCfSnapshot toNumber req) = readCfString (cf req) ''postalCode''"
  "continent (getCfSnapshot toNumber req) = readCfString (cf req) ''continent''"
  "timezone (getCfSnapshot toNumber req) = readCfString (cf req) ''timezone''"
  "colo (getCfSnapshot toNumber req) = readCfString (cf req) ''colo''"
  "asOrganization (getCfSnapshot toNumber req) = readCfString (cf req) ''asOrganization''"
  "tlsVersion (getCfSnapshot toNumber req) = readCfString (cf req) ''tlsVersion''"
  "httpProtocol (getCfSnapshot toNumber req) = readCfString (cf req) ''httpProtocol''"
  "latitude (getCfSnapshot toNumber req) = readCfFloat toNumber (cf req) ''latitude''"
  "longitude (getCfSnapshot toNumber req) = readCfFloat toNumber (cf req) ''longitude''"
  "asn (getCfSnapshot toNumber req) = readCfInteger toNumber (cf req) ''asn''"
  by (simp_all add: getCfSnapshot_def Let_def)

lemma getCfSnapshot_botScore:
  "botScore (getCfSnapshot toNumber req) =
     readCfInteger toNumber
       (case cf req of
          None \<Rightarrow> None
        | Some obj \<Rightarrow>
            (case obj ''botManagement'' of
               Some (JObj kvs) \<Rightarrow> Some (map_of kvs)
             | Some (JArr vs) \<Rightarrow> Some Map.empty
             | _ \<Rightarrow> None))
       ''score''"
  by (auto simp: getCfSnapshot_def Let_def split: option.splits jsval.splits)

lemma readCfString_text:
  "readCfString input key =
     (case input of
        None \<Rightarrow> None
      | Some obj \<Rightarrow>
          (case obj key of
             Some (JStr v) \<Rightarrow> if v = [] then None else Some v
           | _ \<Rightarrow> None))"
  by (auto simp: readCfString_def split: option.splits jsval.splits)

lemma readCfFloat_number:
  "readCfFloat toNumber input key =
     (case input of
        None \<Rightarrow> None
      | Some obj \<Rightarrow>
          (case obj key of
             Some (JNum (Some x)) \<Rightarrow> Some x
           | Some (JStr v) \<Rightarrow> if trim v = [] then None else toNumber v
           | _ \<Rightarrow> None))"
  by (auto simp: readCfFloat_def split: option.splits jsval.splits)

lemma readCfInteger_number:
  "readCfInteger toNumber input key =
     map_option (\<lambda>x. if 0 \<le> x then of_int \<lfloor>x\<rfloor> else of_int \<lceil>x\<rceil>)
       (case input of
          None \<Rightarrow> None
        | Some obj \<Rightarrow>
            (case obj key of
               Some (JNum (Some x)) \<Rightarrow> Some x
             | Some (JStr v) \<Rightarrow> if trim v = [] then None else toNumber v
             | _ \<Rightarrow> None))"
  by (auto simp: readCfInteger_def readCfFloat_number Math_trunc_def split: option.splits)

text \<open>C1. An accepted resubmission of an email that the table already holds in lowercase
  (in whatever letter case the email is sent) leaves exactly one row for that lowercase
  email: the row keeps its id and its \<^verbatim>\<open>created_at\<close>, its \<^verbatim>\<open>updated_at\<close> is the instant
  of the resubmission, and its use case, IP address, two header columns and fifteen
  snapshot columns hold the values of the new submission. The snapshot columns are read
  from the new request's \<^verbatim>\<open>cf\<close> object: a text column is the string under its key when
  that string is not empty; a number column is the finite number under its key, or the
  number that a non-blank string under its key denotes, cut to its integer part for the
  ASN and the bot score (the latter read from the \<^verbatim>\<open>botManagement\<close> object); every other
  case is NULL. No row is added and no other row changes.\<close>

theorem resubmission_updates_row:
  assumes "distinct (map email (rows db))"
    and "parseRequestBody req = Inr raw"
    and "safeParse emailPattern (normalizePayload raw) = Some p"
    and "post_api_waitlist emailPattern toNumber limit now req db = Inr (resp, db')"
    and "status resp = 201"
    and "old \<in> set (rows db)"
    and "email old = toLowerCase (payload_email p)"
  shows "\<exists>new.
       filter (\<lambda>r. email r = toLowerCase (payload_email p)) (rows db') = [new]
     \<and> row_id new = row_id old
     \<and> created_at new = created_at old
     \<and> updated_at new = now
     \<and> use_case new = payload_useCase p
     \<and> ip_address new = Some (getConnectingIp (headers req))
     \<and> user_agent new = headers req ''user-agent''
     \<and> accept_language new = headers req ''accept-language''
     \<and> (let text = (\<lambda>key.
                 case cf req of
                   None \<Rightarrow> None
                 | Some obj \<Rightarrow>
                     (case obj key of
                        Some (JStr v) \<Rightarrow> if v = [] then None else Some v
                      | _ \<Rightarrow> None));
              number = (\<lambda>input key.
                 case input of
                   None \<Rightarrow> None
                 | Some obj \<Rightarrow>
                     (case obj key of
                        Some (JNum (Some x)) \<Rightarrow> Some x
                      | Some (JStr v) \<Rightarrow> if trim v = [] then None else toNumber v
                      | _ \<Rightarrow> None));
              integer = (\<lambda>input key.
                 map_option (\<lambda>x. if 0 \<le> x then of_int \<lfloor>x\<rfloor> else of_int \<lceil>x\<rceil>)
                   (number input key));
              botManagement =
                (case cf req of
                   None \<Rightarrow> None
                 | Some obj \<Rightarrow>
                     (case obj ''botManagement'' of
                        Some (JObj kvs) \<Rightarrow> Some (map_of kvs)
                      | Some (JArr vs) \<Rightarrow> Some Map.empty
                      | _ \<Rightarrow> None))
          in cf_country new = text ''country''
           \<and> cf_region new = text ''region''
           \<and> cf_region_code new = text ''regionCode''
           \<and> cf_city new = text ''city''
           \<and> cf_postal_code new = text ''postalCode''
           \<and> cf_continent new = text ''continent''
           \<and> cf_timezone new = text ''timezone''
           \<and> cf_colo new = text ''colo''
           \<and> cf_asn new = integer (cf req) ''asn''
           \<and> cf_as_organization new = text ''asOrganization''
           \<and> cf_latitude new = number (cf req) ''latitude''
           \<and> cf_longitude new = number (cf req) ''longitude''
           \<and> cf_bot_score new = integer botManagement ''score''
           \<and> cf_tls_version new = text ''tlsVersion''
           \<and> cf_http_protocol new = text ''httpProtocol'')
     \<and> length (rows db') = length (rows db)
     \<and> distinct (map email (rows db'))
     \<and> filter (\<lambda>r. email r \<noteq> toLowerCase (payload_email p)) (rows db')
         = filter (\<lambda>r. email r \<noteq> toLowerCase (payload_email p)) (rows db)"
proof -
  obtain excluded where db': "db' = insert_on_conflict_update excluded db"
    and e: "email excluded = toLowerCase (payload_email p)"
    and cols: "use_case excluded = payload_useCase p"
      "ip_address excluded = Some (getConnectingIp (headers req))"
      "user_agent excluded = headers req ''user-agent''"
      "accept_language excluded = headers req ''accept-language''"
      "updated_at excluded = now"
    and snap: "cf_country excluded = country (getCfSnapshot toNumber req)"
      "cf_region excluded = region (getCfSnapshot toNumber req)"
      "cf_region_code excluded = regionCode (getCfSnapshot toNumber req)"
      "cf_city excluded = city (getCfSnapshot toNumber req)"
      "cf_postal_code excluded = postalCode (getCfSnapshot toNumber req)"
      "cf_continent excluded = continent (getCfSnapshot toNumber req)"
      "cf_timezone excluded = timezone (getCfSnapshot toNumber req)"
      "cf_colo excluded = colo (getCfSnapshot toNumber req)"
      "cf_asn excluded = asn (getCfSnapshot toNumber req)"
      "cf_as_organization excluded = asOrganization (getCfSnapshot toNumber req)"
      "cf_latitude excluded = latitude (getCfSnapshot toNumber req)"
      "cf_longitude excluded = longitude (getCfSnapshot toNumber req)"
      "cf_bot_score excluded = botScore (getCfSnapshot toNumber req)"
      "cf_tls_version excluded = tlsVersion (getCfSnapshot toNumber req)"
      "cf_http_protocol excluded = httpProtocol (getCfSnapshot toNumber req)"
    using handler_accepted[OF assms(2,3,4,5)] by blast
  have old: "email old = email excluded"
    using assms(7) e by simp
  note c = conflict_rows[OF assms(1) assms(6) old]
  have one: "filter (\<lambda>r. email r = toLowerCase (payload_email p)) (rows db')
      = [do_update excluded old]"
    using c(1) by (simp add: db' e)
  have len: "length (rows db') = length (rows db)"
    using c(2) by (simp add: db')
  have rest: "filter (\<lambda>r. email r \<noteq> toLowerCase (payload_email p)) (rows db')
         = filter (\<lambda>r. email r \<noteq> toLowerCase (payload_email p)) (rows db)"
    using c(3) by (simp add: db' e)
  have uniq: "distinct (map email (rows db'))"
    using c(4) assms(1) by (simp add: db')
  have new: "row_id (do_update excluded old) = row_id old"
      "created_at (do_update excluded old) = created_at old"
    by (simp_all add: do_update_keeps)
  have upd: "updated_at (do_update excluded old) = now"
      "use_case (do_update excluded old) = payload_useCase p"
      "ip_address (do_update excluded old) = Some (getConnectingIp (headers req))"
      "user_agent (do_update excluded old) = headers req ''user-agent''"
      "accept_language (do_update excluded old) = headers req ''accept-language''"
    by (simp_all add: do_update_def cols)
  have strs: "cf_country (do_update excluded old) = readCfString (cf req) ''country''"
      "cf_region (do_update excluded old) = readCfString (cf req) ''region''"
      "cf_region_code (do_update excluded old) = readCfString (cf req) ''regionCode''"
      "cf_city (do_update excluded old) = readCfString (cf req) ''city''"
      "cf_postal_code (do_update excluded old) = readCfString (cf req) ''postalCode''"
      "cf_continent (do_update excluded old) = readCfString (cf req) ''continent''"
      "cf_timezone (do_update excluded old) = readCfString (cf req) ''timezone''"
      "cf_colo (do_update excluded old) = readCfString (cf req) ''colo''"
      "cf_as_organization (do_update excluded old) = readCfString (cf req) ''asOrganization''"
      "cf_tls_version (do_update excluded old) = readCfString (cf req) ''tlsVersion''"
      "cf_http_protocol (do_update excluded old) = readCfString (cf req) ''httpProtocol''"
    by (simp_all add: do_update_def snap getCfSnapshot_reads)
  have num: "cf_latitude (do_update excluded old) = readCfFloat toNumber (cf req) ''latitude''"
      "cf_longitude (do_update excluded old) = readCfFloat toNumber (cf req) ''longitude''"
      "cf_asn (do_update excluded old) = readCfInteger toNumber (cf req) ''asn''"
    by (simp_all add: do_update_def snap getCfSnapshot_reads)
  have bot: "cf_bot_score (do_update excluded old) =
     readCfInteger toNumber
       (case cf req of
          None \<Rightarrow> None
        | Some obj \<Rightarrow>
            (case obj ''botManagement'' of
               Some (JObj kvs) \<Rightarrow> Some (map_of kvs)
             | Some (JArr vs) \<Rightarrow> Some Map.empty
             | _ \<Rightarrow> None))
       ''score''"
    by (simp add: do_update_def snap getCfSnapshot_botScore)
  show ?thesis
    unfolding Let_def
    by (intro exI[of _ "do_update excluded old"] conjI one new upd len uniq rest)
       (simp_all only: strs num bot readCfString_text readCfFloat_number readCfInteger_number)
qed

theorem resubmission_updates_row_witness:
  "distinct (map email (rows \<lparr> rows = [stored 1 ''user@example.com'' ''9.9.9.9'' 1700000000000],
                                   seq = 1 \<rparr>))
   \<and> toLowerCase ''User@Example.com'' = ''user@example.com''
   \<and> post_api_waitlist zod_email [''50.85'' \<mapsto> 50.85] None 1700000005000
         ((json_request [(''cf-connecting-ip'', ''1.2.3.4''), (''user-agent'', ''curl'')]
             [(''email'', JStr ''User@Example.com''), (''useCase'', JStr ''demo'')])
           \<lparr> cf := Some (map_of [(''country'', JStr ''BE''), (''colo'', JStr []),
                     (''asn'', JNum (Some 13335.5)), (''latitude'', JStr ''50.85''),
                     (''longitude'', JNum (Some 4.35)),
                     (''botManagement'', JObj [(''score'', JNum (Some 30))]),
                     (''tlsVersion'', JStr ''TLSv1.3'')]) \<rparr>)
         \<lparr> rows = [stored 1 ''user@example.com'' ''9.9.9.9'' 1700000000000], seq = 1 \<rparr>
       = Inr (resp_created,
              \<lparr> rows = [(stored 1 ''user@example.com'' ''1.2.3.4'' 1700000000000)
                          \<lparr> use_case := Some ''demo'', user_agent := Some ''curl'',
                            cf_country := Some ''BE'', cf_asn := Some 13335,
                            cf_latitude := Some 50.85, cf_longitude := Some 4.35,
                            cf_bot_score := Some 30, cf_tls_version := Some ''TLSv1.3'',
                            updated_at := 1700000005000 \<rparr>],
                seq = 2 \<rparr>)
   \<and> (\<exists>new. filter (\<lambda>r. email r = ''user@example.com'')
                [(stored 1 ''user@example.com'' ''1.2.3.4'' 1700000000000)
                   \<lparr> use_case := Some ''demo'', user_agent := Some ''curl'',
                     cf_country := Some ''BE'', cf_asn := Some 13335,
                     cf_latitude := Some 50.85, cf_longitude := Some 4.35,
                     cf_bot_score := Some 30, cf_tls_version := Some ''TLSv1.3'',
                     updated_at := 1700000005000 \<rparr>] = [new]
          \<and> row_id new = 1
          \<and> created_at new = 1700000000000
          \<and> updated_at new = 1700000005000
          \<and> use_case new = Some ''demo''
          \<and> ip_address new = Some ''1.2.3.4''
          \<and> cf_country new = Some ''BE''
          \<and> cf_colo new = None
          \<and> cf_asn new = Some 13335
          \<and> cf_latitude new = Some 50.85
          \<and> cf_longitude new = Some 4.35
          \<and> cf_bot_score new = Some 30
          \<and> cf_tls_version new = Some ''TLSv1.3'')"
proof -
  let ?body = "[(''email'', JStr ''User@Example.com''), (''useCase'', JStr ''demo'')]"
  let ?cf = "map_of [(''country'', JStr ''BE''), (''colo'', JStr []),
                     (''asn'', JNum (Some 13335.5)), (''latitude'', JStr ''50.85''),
                     (''longitude'', JNum (Some 4.35)),
                     (''botManagement'', JObj [(''score'', JNum (Some 30))]),
                     (''tlsVersion'', JStr ''TLSv1.3'')]"
  let ?req = "(json_request [(''cf-connecting-ip'', ''1.2.3.4''), (''user-agent'', ''curl'')] ?body)
                \<lparr> cf := Some ?cf \<rparr>"
  let ?num = "[''50.85'' \<mapsto> 50.85 :: real]"
  let ?old = "stored 1 ''user@example.com'' ''9.9.9.9'' 1700000000000"
  let ?db = "\<lparr> rows = [?old], seq = 1 \<rparr>"
  let ?row = "(stored 1 ''user@example.com'' ''1.2.3.4'' 1700000000000)
                          \<lparr> use_case := Some ''demo'', user_agent := Some ''curl'',
                            cf_country := Some ''BE'', cf_asn := Some 13335,
                            cf_latitude := Some 50.85, cf_longitude := Some 4.35,
                            cf_bot_score := Some 30, cf_tls_version := Some ''TLSv1.3'',
                            updated_at := 1700000005000 \<rparr>"
  let ?db' = "\<lparr> rows = [?row], seq = 2 \<rparr>"
  let ?p = "\<lparr> payload_email = ''User@Example.com'', payload_useCase = Some ''demo'',
              payload_website = None \<rparr>"
  have uniq: "distinct (map email (rows ?db))"
    by simp
  have parse: "parseRequestBody ?req = Inr (map_of ?body)"
    by (simp add: parseRequestBody_def json_request_def)
  have valid: "safeParse zod_email (normalizePayload (map_of ?body)) = Some ?p"
    by code_simp
  have run: "post_api_waitlist zod_email ?num None 1700000005000 ?req ?db
      = Inr (resp_created, ?db')"
    by code_simp
  have st: "status resp_created = 201"
    by (simp add: resp_created_def)
  have lower: "toLowerCase ''User@Example.com'' = ''user@example.com''"
    by code_simp
  have mem: "?old \<in> set (rows ?db)"
    by simp
  have key: "email ?old = toLowerCase (payload_email ?p)"
    by (simp add: lower stored_def)
  have ip: "getConnectingIp (headers ?req) = ''1.2.3.4''"
    by (simp add: getConnectingIp_def json_request_def)
  have oldcols: "row_id ?old = 1" "created_at ?old = 1700000000000"
    by (simp_all add: stored_def)
  have cfreq: "cf ?req = Some ?cf"
    by simp
  have t: "trim ''50.85'' = ''50.85''"
    by (simp add: trim_def isWhiteSpace_def)
  from resubmission_updates_row[OF uniq parse valid run st mem key]
  obtain new where
    f: "filter (\<lambda>r. email r = toLowerCase (payload_email ?p)) (rows ?db') = [new]"
    and c: "row_id new = row_id ?old" "created_at new = created_at ?old"
      "updated_at new = 1700000005000" "use_case new = payload_useCase ?p"
      "ip_address new = Some (getConnectingIp (headers ?req))"
    and s: "cf_country new = Some ''BE''" "cf_colo new = None"
      "cf_asn new = Some 13335" "cf_latitude new = Some 50.85"
      "cf_longitude new = Some 4.35" "cf_bot_score new = Some 30"
      "cf_tls_version new = Some ''TLSv1.3''"
    unfolding Let_def cfreq by (auto simp: t)
  have f': "filter (\<lambda>r. email r = ''user@example.com'') [?row] = [new]"
    using f by (simp only: lower payload.select_convs store.select_convs)
  have c': "row_id new = 1" "created_at new = 1700000000000"
    "updated_at new = 1700000005000" "use_case new = Some ''demo''"
    "ip_address new = Some ''1.2.3.4''"
    using c by (simp_all only: oldcols ip payload.select_convs)
  have "\<exists>new. filter (\<lambda>r. email r = ''user@example.com'') [?row] = [new]
          \<and> row_id new = 1
          \<and> created_at new = 1700000000000
          \<and> updated_at new = 1700000005000
          \<and> use_case new = Some ''demo''
          \<and> ip_address new = Some ''1.2.3.4''
          \<and> cf_country new = Some ''BE''
          \<and> cf_colo new = None
          \<and> cf_asn new = Some 13335
          \<and> cf_latitude new = Some 50.85
          \<and> cf_longitude new = Some 4.35
          \<and> cf_bot_score new = Some 30
          \<and> cf_tls_version new = Some ''TLSv1.3''"
    using f' c' s by blast
  with uniq lower run show ?thesis by blast
qed

subsection \<open>Resubmissions and the daily count\<close>

text \<open>C4 on the code. With a ceiling of 2, three submissions of one email from one IP on
  one UTC day are all accepted: the second and the third update the one row, whose
  \<^verbatim>\<open>created_at\<close> and IP already made it count, and the count that the limiter reads stays
  1 (only \<^verbatim>\<open>sqlite_sequence\<close> moves on). A third submission with a third email, after two
  different emails, is rejected.\<close>

theorem resubmission_not_counted:
  "post_api_waitlist zod_email Map.empty (Some ''2'') 1700000000000
     (json_request [(''cf-connecting-ip'', ''1.2.3.4'')] [(''email'', JStr ''user@example.com'')])
     \<lparr> rows = [], seq = 0 \<rparr>
   = Inr (resp_created,
          \<lparr> rows = [stored 1 ''user@example.com'' ''1.2.3.4'' 1700000000000], seq = 1 \<rparr>)
   \<and> post_api_waitlist zod_email Map.empty (Some ''2'') 1700000005000
     (json_request [(''cf-connecting-ip'', ''1.2.3.4'')] [(''email'', JStr ''user@example.com'')])
     \<lparr> rows = [stored 1 ''user@example.com'' ''1.2.3.4'' 1700000000000], seq = 1 \<rparr>
   = Inr (resp_created,
          \<lparr> rows = [(stored 1 ''user@example.com'' ''1.2.3.4'' 1700000000000)
                      \<lparr> updated_at := 1700000005000 \<rparr>], seq = 2 \<rparr>)
   \<and> count_query
        \<lparr> rows = [(stored 1 ''user@example.com'' ''1.2.3.4'' 1700000000000)
                      \<lparr> updated_at := 1700000005000 \<rparr>], seq = 2 \<rparr>
        ''1.2.3.4'' (startOfUtcDayIso 1700000009000) (endOfUtcDayIso 1700000009000) = 1
   \<and> post_api_waitlist zod_email Map.empty (Some ''2'') 1700000009000
     (json_request [(''cf-connecting-ip'', ''1.2.3.4'')] [(''email'', JStr ''user@example.com'')])
     \<lparr> rows = [(stored 1 ''user@example.com'' ''1.2.3.4'' 1700000000000)
                  \<lparr> updated_at := 1700000005000 \<rparr>], seq = 2 \<rparr>
   = Inr (resp_created,
          \<lparr> rows = [(stored 1 ''user@example.com'' ''1.2.3.4'' 1700000000000)
                      \<lparr> updated_at := 1700000009000 \<rparr>], seq = 3 \<rparr>)
   \<and> post_api_waitlist zod_email Map.empty (Some ''2'') 1700000009000
     (json_request [(''cf-connecting-ip'', ''1.2.3.4'')] [(''email'', JStr ''third@example.com'')])
     \<lparr> rows = [stored 1 ''user@example.com'' ''1.2.3.4'' 1700000000000,
                stored 2 ''other@example.com'' ''1.2.3.4'' 1700000005000], seq = 2 \<rparr>
   = Inr (resp_rate_limited 6391,
          \<lparr> rows = [stored 1 ''user@example.com'' ''1.2.3.4'' 1700000000000,
                     stored 2 ''other@example.com'' ''1.2.3.4'' 1700000005000], seq = 2 \<rparr>)"
proof (intro conjI)
  show "post_api_waitlist zod_email Map.empty (Some ''2'') 1700000000000
     (json_request [(''cf-connecting-ip'', ''1.2.3.4'')] [(''email'', JStr ''user@example.com'')])
     \<lparr> rows = [], seq = 0 \<rparr>
   = Inr (resp_created,
          \<lparr> rows = [stored 1 ''user@example.com'' ''1.2.3.4'' 1700000000000], seq = 1 \<rparr>)"
    by code_simp
  show "post_api_waitlist zod_email Map.empty (Some ''2'') 1700000005000
     (json_request [(''cf-connecting-ip'', ''1.2.3.4'')] [(''email'', JStr ''user@example.com'')])
     \<lparr> rows = [stored 1 ''user@example.com'' ''1.2.3.4'' 1700000000000], seq = 1 \<rparr>
   = Inr (resp_created,
          \<lparr> rows = [(stored 1 ''user@example.com'' ''1.2.3.4'' 1700000000000)
                      \<lparr> updated_at := 1700000005000 \<rparr>], seq = 2 \<rparr>)"
    by code_simp
  show "count_query
        \<lparr> rows = [(stored 1 ''user@example.com'' ''1.2.3.4'' 1700000000000)
                      \<lparr> updated_at := 1700000005000 \<rparr>], seq = 2 \<rparr>
        ''1.2.3.4'' (startOfUtcDayIso 1700000009000) (endOfUtcDayIso 1700000009000) = 1"
    by code_simp
  show "post_api_waitlist zod_email Map.empty (Some ''2'') 1700000009000
     (json_request [(''cf-connecting-ip'', ''1.2.3.4'')] [(''email'', JStr ''user@example.com'')])
     \<lparr> rows = [(stored 1 ''user@example.com'' ''1.2.3.4'' 1700000000000)
                  \<lparr> updated_at := 1700000005000 \<rparr>], seq = 2 \<rparr>
   = Inr (resp_created,
          \<lparr> rows = [(stored 1 ''user@example.com'' ''1.2.3.4'' 1700000000000)
                      \<lparr> updated_at := 1700000009000 \<rparr>], seq = 3 \<rparr>)"
    by code_simp
  show "post_api_waitlist zod_email Map.empty (Some ''2'') 1700000009000
     (json_request [(''cf-connecting-ip'', ''1.2.3.4'')] [(''email'', JStr ''third@example.com'')])
     \<lparr> rows = [stored 1 ''user@example.com'' ''1.2.3.4'' 1700000000000,
                stored 2 ''other@example.com'' ''1.2.3.4'' 1700000005000], seq = 2 \<rparr>
   = Inr (resp_rate_limited 6391,
          \<lparr> rows = [stored 1 ''user@example.com'' ''1.2.3.4'' 1700000000000,
                     stored 2 ''other@example.com'' ''1.2.3.4'' 1700000005000], seq = 2 \<rparr>)"
    by code_simp
qed

end
